theory Spec2Isabelle
  imports Complex_Main "HOL-Library.AList" "HOL-Library.Multiset"
begin

section \<open>Review service: data model\<close>

text \<open>
  The review service of the movie application (Go). This theory embeds the review
  repository (the PostgreSQL store and the in-memory store), the HTTP handlers of the
  review service, the gRPC facade of the movie service and the public movie endpoint,
  and states the properties of the specification about them.

  Conventions of the embedding:
  \<^item> \<open>time.Time\<close> is an instant, an integer count of clock ticks;
  \<^item> Go's \<open>int\<close> is the 64-bit signed integer: arithmetic on it is written with
    \<open>int64\<close>, which wraps around; \<open>int32\<close> likewise;
  \<^item> a \<open>float64\<close> is a binary64 number, an infinity or NaN; conversions and
    quotients round to the nearest, ties to even;
  \<^item> a Go \<open>map\<close> is an association list with distinct keys; the order of the list is
    the order in which \<open>range\<close> visits the entries, which Go leaves unspecified;
  \<^item> logging is left out; it has no effect on any result.
\<close>

type_synonym Time = int

definition int64 :: "int \<Rightarrow> int" where
  "int64 x = (x + 2 ^ 63) mod 2 ^ 64 - 2 ^ 63"

definition int32 :: "int \<Rightarrow> int" where
  "int32 x = (x + 2 ^ 31) mod 2 ^ 32 - 2 ^ 31"

subsection \<open>float64\<close>

text \<open>
  A \<open>float64\<close> is a finite binary64 number (given by its exact value, a rational), an
  infinity (\<open>Infinity True\<close> is the negative one) or NaN. The two zeros are not told
  apart; the code of this theory never produces a negative zero.

  \<open>nearest_float64 a b\<close>, for \<open>b > 0\<close>, is the binary64 number nearest to the exact
  quotient \<open>a / b\<close>, ties to the even significand: with \<open>2 ^ e \<le> |a| / b < 2 ^ (e + 1)\<close>
  the result is a multiple of \<open>2 ^ (e - 52)\<close> (of \<open>2 ^ (- 1074)\<close> in the subnormal
  range), and a result of \<open>2 ^ 1024\<close> or more is an infinity. It is what a correctly
  rounded operation returns whose exact result is \<open>a / b\<close>.
\<close>

datatype float64 = Finite rat | Infinity bool | NaN

text \<open>The number of digits of \<open>n\<close> in base \<open>b\<close>.\<close>

function digit_count :: "nat \<Rightarrow> nat \<Rightarrow> nat" where
  "digit_count b n = (if n = 0 \<or> b \<le> 1 then 0 else Suc (digit_count b (n div b)))"
  by pat_completeness auto
termination
  by (relation "measure snd") auto

declare digit_count.simps [simp del]

definition div_round_half_even :: "int \<Rightarrow> int \<Rightarrow> int" where
  "div_round_half_even num den =
     (let q = num div den; r = num mod den
      in if 2 * r < den then q
         else if den < 2 * r then q + 1
         else if even q then q else q + 1)"

text \<open>For \<open>p, b > 0\<close>: the \<open>e\<close> with \<open>2 ^ e \<le> p / b < 2 ^ (e + 1)\<close>.\<close>

definition floor_log2_quotient :: "int \<Rightarrow> int \<Rightarrow> int" where
  "floor_log2_quotient p b =
     (let c = int (digit_count 2 (nat p)) - int (digit_count 2 (nat b))
      in if b * 2 ^ nat c \<le> p * 2 ^ nat (- c) then c else c - 1)"

text \<open>The spacing of the binary64 numbers around \<open>p / b\<close> is \<open>2 ^ (- k)\<close> for
  \<open>k = ulp_exponent p b\<close>; \<open>round_to_ulp k p b\<close> is the multiple of \<open>2 ^ (- k)\<close> nearest
  to \<open>p / b\<close>.\<close>

definition ulp_exponent :: "int \<Rightarrow> int \<Rightarrow> int" where
  "ulp_exponent p b = min (52 - floor_log2_quotient p b) 1074"

definition round_to_ulp :: "int \<Rightarrow> int \<Rightarrow> int \<Rightarrow> rat" where
  "round_to_ulp k p b =
     rat_of_int (div_round_half_even (p * 2 ^ nat k) (b * 2 ^ nat (- k)) * 2 ^ nat (- k))
       / rat_of_int (2 ^ nat k)"

definition nearest_float64 :: "int \<Rightarrow> int \<Rightarrow> float64" where
  "nearest_float64 a b =
     (if a = 0 then Finite 0
      else
        let v = round_to_ulp (ulp_exponent \<bar>a\<bar> b) \<bar>a\<bar> b
        in if 2 ^ 1024 \<le> v then Infinity (a < 0)
           else Finite (if a < 0 then - v else v))"

text \<open>The conversion \<open>float64(x)\<close> of an integer of at most 64 bits: the integer itself
  when it has at most 53 bits, and otherwise the nearest integer with 53 significant
  bits (ties to even). The result is an integer.\<close>

definition float64_of_int :: "int \<Rightarrow> int" where
  "float64_of_int x =
     (let s = digit_count 2 (nat \<bar>x\<bar>) - 53
      in sgn x * (div_round_half_even \<bar>x\<bar> (2 ^ s) * 2 ^ s))"

text \<open>The Go quotient \<open>x / y\<close> of two \<open>float64\<close> values that are the integers \<open>x\<close> and
  \<open>y\<close>: the correctly rounded quotient; a zero divisor gives NaN for \<open>0 / 0\<close> and an
  infinity otherwise.\<close>

definition float64_quo :: "int \<Rightarrow> int \<Rightarrow> float64" where
  "float64_quo x y =
     (if y = 0 then (if x = 0 then NaN else Infinity (x < 0))
      else if y < 0 then nearest_float64 (- x) (- y)
      else nearest_float64 x y)"

subsection \<open>The types of package domain\<close>

text \<open>\<open>domain.Review\<close>: the last two fields are not stored, they are filled in by the
  listing handlers.\<close>

record Review =
  ID :: string
  MovieID :: string
  UserID :: string
  Rating :: int
  Comment :: string
  CreatedAt :: Time
  UpdatedAt :: Time
  Username :: string
  MovieTitle :: string

text \<open>\<open>domain.CreateReviewRequest\<close>, with its validation tags
  \<open>required,uuid\<close>, \<open>required,gte=1,lte=10\<close> and \<open>max=2000\<close>.\<close>

record CreateReviewRequest =
  req_MovieID :: string
  req_Rating :: int
  req_Comment :: string

record AggregatedRating =
  agg_MovieID :: string
  AverageRating :: float64
  RatingCount :: int

record ListReviewsParams =
  Page :: int
  PageSize :: int
  SortBy :: string

text \<open>The errors of package \<open>store\<close>: the two sentinel errors, and every other error
  (built with \<open>fmt.Errorf\<close> or \<open>errors.New\<close>) with its message prefix.\<close>

datatype store_error = ErrReviewNotFound | ErrDuplicateReview | ErrOther string

section \<open>The reviews table and the SQL statements of the PostgreSQL store\<close>

text \<open>
  A row of table \<open>reviews\<close>: columns \<open>id, movie_id, user_id, rating, comment,
  created_at, updated_at\<close>. The table is the list of its rows. Its constraints are
  those of the schema in the README: primary key \<open>id\<close> (constraint \<open>reviews_pkey\<close>)
  and \<open>CONSTRAINT uq_user_movie_review UNIQUE (user_id, movie_id)\<close>. The README's
  example \<open>CHECK\<close> on the rating scale ("or 1-10 depending on your scale") is not part
  of the model.
\<close>

record review_row =
  row_id :: string
  row_movie_id :: string
  row_user_id :: string
  row_rating :: int
  row_comment :: string
  row_created_at :: Time
  row_updated_at :: Time

type_synonym reviews_table = "review_row list"

text \<open>A PostgreSQL error as \<open>pq.Error\<close> shows it: SQLSTATE code and constraint name.\<close>

record pq_error =
  Code :: string
  Constraint :: string

definition unique_violation :: "string \<Rightarrow> pq_error" where
  "unique_violation c = \<lparr>Code = ''23505'', Constraint = c\<rparr>"

definition invalid_row_count :: "string \<Rightarrow> pq_error" where
  "invalid_row_count c = \<lparr>Code = c, Constraint = ''''\<rparr>"

text \<open>\<open>INSERT INTO reviews (...) VALUES (...)\<close>: the unique indexes are checked, the
  primary key first; a violation leaves the table as it was.\<close>

definition sql_insert :: "review_row \<Rightarrow> reviews_table \<Rightarrow> pq_error + reviews_table" where
  "sql_insert r tbl =
     (if list_ex (\<lambda>x. row_id x = row_id r) tbl
        then Inl (unique_violation ''reviews_pkey'')
      else if list_ex (\<lambda>x. row_user_id x = row_user_id r \<and> row_movie_id x = row_movie_id r) tbl
        then Inl (unique_violation ''uq_user_movie_review'')
      else Inr (tbl @ [r]))"

text \<open>\<open>ORDER BY\<close>: a list of sort keys, each a column with a direction.\<close>

datatype sort_column = col_rating | col_created_at

datatype sort_direction = ASC | DESC

type_synonym sort_key = "sort_column \<times> sort_direction"

fun column_value :: "sort_column \<Rightarrow> review_row \<Rightarrow> int" where
  "column_value col_rating r = row_rating r"
| "column_value col_created_at r = row_created_at r"

fun key_before :: "sort_key \<Rightarrow> review_row \<Rightarrow> review_row \<Rightarrow> bool" where
  "key_before (c, ASC) a b = (column_value c a < column_value c b)"
| "key_before (c, DESC) a b = (column_value c b < column_value c a)"

text \<open>\<open>row_le ks a b\<close>: row \<open>a\<close> may stand before row \<open>b\<close> under the keys \<open>ks\<close>
  (the first key on which they differ decides).\<close>

fun row_le :: "sort_key list \<Rightarrow> review_row \<Rightarrow> review_row \<Rightarrow> bool" where
  "row_le [] a b = True"
| "row_le (k # ks) a b =
     (if column_value (fst k) a = column_value (fst k) b then row_le ks a b
      else key_before k a b)"

fun insert_row :: "sort_key list \<Rightarrow> review_row \<Rightarrow> review_row list \<Rightarrow> review_row list" where
  "insert_row ks x [] = [x]"
| "insert_row ks x (y # ys) =
     (if row_le ks x y then x # y # ys else y # insert_row ks x ys)"

definition sql_order_by :: "sort_key list \<Rightarrow> review_row list \<Rightarrow> review_row list" where
  "sql_order_by ks rows = foldr (insert_row ks) rows []"

text \<open>\<open>LIMIT n OFFSET m\<close>: PostgreSQL refuses a negative offset and a negative limit
  when the statement runs.\<close>

definition sql_limit_offset :: "int \<Rightarrow> int \<Rightarrow> 'a list \<Rightarrow> pq_error + 'a list" where
  "sql_limit_offset n m rows =
     (if m < 0 then Inl (invalid_row_count ''2201X'')
      else if n < 0 then Inl (invalid_row_count ''2201W'')
      else Inr (take (nat n) (drop (nat m) rows)))"

text \<open>\<open>UPDATE reviews SET rating = $1, comment = $2, updated_at = $3 WHERE id = $4 AND
  user_id = $5\<close> and \<open>DELETE FROM reviews WHERE id = $1 AND user_id = $2\<close>: the new
  table and the number of rows affected.\<close>

definition sql_update ::
  "int \<Rightarrow> string \<Rightarrow> Time \<Rightarrow> string \<Rightarrow> string \<Rightarrow> reviews_table \<Rightarrow> reviews_table \<times> int" where
  "sql_update rt cm upd rid uid tbl =
     (map (\<lambda>x. if row_id x = rid \<and> row_user_id x = uid
                then x\<lparr>row_rating := rt, row_comment := cm, row_updated_at := upd\<rparr> else x) tbl,
      int (length (filter (\<lambda>x. row_id x = rid \<and> row_user_id x = uid) tbl)))"

definition sql_delete :: "string \<Rightarrow> string \<Rightarrow> reviews_table \<Rightarrow> reviews_table \<times> int" where
  "sql_delete rid uid tbl =
     (filter (\<lambda>x. \<not> (row_id x = rid \<and> row_user_id x = uid)) tbl,
      int (length (filter (\<lambda>x. row_id x = rid \<and> row_user_id x = uid) tbl)))"

text \<open>
  \<open>AVG\<close> over an integer column is a PostgreSQL \<open>numeric\<close>: a decimal number, here the
  integer \<open>unscaled\<close> divided by \<open>10 ^ dscale\<close>. PostgreSQL divides the sum of the values
  by their number and rounds the quotient, half away from zero, at a scale that it
  chooses from the two operands so that the result has at least 16 significant digits:
  with the operands written in base 10000, \<open>qweight\<close> is the difference of the positions
  of their leading digits, less one when the leading digit of the dividend is not the
  greater, and the scale is \<open>16 - 4 * qweight\<close>, kept between 0 and 1000. \<open>AVG\<close> over no
  rows is \<open>NULL\<close>, which \<open>COALESCE(..., 0)\<close> turns into 0.
\<close>

record numeric =
  unscaled :: int
  dscale :: nat

definition numeric_weight :: "int \<Rightarrow> int" where
  "numeric_weight x = (if x = 0 then 0 else int (digit_count 10000 (nat \<bar>x\<bar>)) - 1)"

definition numeric_firstdigit :: "int \<Rightarrow> int" where
  "numeric_firstdigit x = (if x = 0 then 0 else \<bar>x\<bar> div 10000 ^ nat (numeric_weight x))"

definition select_div_scale :: "int \<Rightarrow> int \<Rightarrow> nat" where
  "select_div_scale a b =
     (let qweight = numeric_weight a - numeric_weight b
                      - (if numeric_firstdigit a \<le> numeric_firstdigit b then 1 else 0);
          rscale = 16 - qweight * 4
      in nat (min (max rscale 0) 1000))"

definition numeric_div :: "int \<Rightarrow> int \<Rightarrow> numeric" where
  "numeric_div a b =
     (let rscale = select_div_scale a b
      in \<lparr>unscaled = sgn a * ((2 * \<bar>a\<bar> * 10 ^ rscale + b) div (2 * b)), dscale = rscale\<rparr>)"

definition sql_coalesce_avg :: "int list \<Rightarrow> numeric" where
  "sql_coalesce_avg vs =
     (if vs = [] then \<lparr>unscaled = 0, dscale = 0\<rparr>
      else numeric_div (sum_list vs) (int (length vs)))"

text \<open>Scanning a \<open>numeric\<close> column into a \<open>float64\<close> field: the driver hands the decimal
  text over and \<open>database/sql\<close> converts it with \<open>strconv.ParseFloat\<close>, which gives the
  \<open>float64\<close> nearest to the decimal number.\<close>

definition scan_float64 :: "numeric \<Rightarrow> float64" where
  "scan_float64 x = nearest_float64 (unscaled x) (10 ^ dscale x)"

text \<open>Scanning a selected row into a \<open>domain.Review\<close>: the two display fields have no
  column and stay empty.\<close>

definition scan_review :: "review_row \<Rightarrow> Review" where
  "scan_review r =
     \<lparr>ID = row_id r, MovieID = row_movie_id r, UserID = row_user_id r, Rating = row_rating r,
      Comment = row_comment r, CreatedAt = row_created_at r, UpdatedAt = row_updated_at r,
      Username = '''', MovieTitle = ''''\<rparr>"

section \<open>PostgresReviewStore\<close>

text \<open>\<open>Create\<close> stamps the review with the store's clock reading \<open>now\<close>, inserts it,
  and translates a violation of \<open>uq_user_movie_review\<close> into \<open>ErrDuplicateReview\<close>.
  The result is the error (if any), the review as the caller sees it afterwards (the
  method writes the two timestamps through the pointer), and the table.\<close>

definition PostgresReviewStore_Create ::
  "Time \<Rightarrow> Review \<Rightarrow> reviews_table \<Rightarrow> (store_error option \<times> Review) \<times> reviews_table" where
  "PostgresReviewStore_Create now review0 tbl =
     (let review = review0\<lparr>CreatedAt := now, UpdatedAt := now\<rparr> in
      case sql_insert
             \<lparr>row_id = ID review, row_movie_id = MovieID review, row_user_id = UserID review,
              row_rating = Rating review, row_comment = Comment review,
              row_created_at = CreatedAt review, row_updated_at = UpdatedAt review\<rparr> tbl of
        Inl pqErr \<Rightarrow>
          (if Code pqErr = ''23505''
           then (if Constraint pqErr = ''uq_user_movie_review''
                 then ((Some ErrDuplicateReview, review), tbl)
                 else ((Some (ErrOther ''failed to create review due to unique constraint''), review), tbl))
           else ((Some (ErrOther ''failed to create review''), review), tbl))
      | Inr tbl' \<Rightarrow> ((None, review), tbl'))"

definition PostgresReviewStore_GetByID :: "string \<Rightarrow> reviews_table \<Rightarrow> store_error + Review" where
  "PostgresReviewStore_GetByID reviewID tbl =
     (case filter (\<lambda>x. row_id x = reviewID) tbl of
        [] \<Rightarrow> Inl ErrReviewNotFound
      | r # _ \<Rightarrow> Inr (scan_review r))"

definition PostgresReviewStore_GetReviewsByMovieID ::
  "string \<Rightarrow> ListReviewsParams \<Rightarrow> reviews_table \<Rightarrow> store_error + (Review list \<times> int)" where
  "PostgresReviewStore_GetReviewsByMovieID movieID params tbl =
     (let totalCount = int (length (filter (\<lambda>x. row_movie_id x = movieID) tbl)) in
      if totalCount = 0 then Inr ([], 0)
      else
        let orderBy =
              (if SortBy params \<noteq> '''' then
                 (if SortBy params = ''rating_desc'' then [(col_rating, DESC), (col_created_at, DESC)]
                  else if SortBy params = ''rating_asc'' then [(col_rating, ASC), (col_created_at, DESC)]
                  else [(col_created_at, DESC)])
               else [(col_created_at, DESC)])
        in case sql_limit_offset (PageSize params) (int64 (int64 (Page params - 1) * PageSize params))
                  (sql_order_by orderBy (filter (\<lambda>x. row_movie_id x = movieID) tbl)) of
             Inl pqErr \<Rightarrow> Inl (ErrOther ''failed to list reviews by movieID'')
           | Inr rows \<Rightarrow> Inr (map scan_review rows, totalCount))"

definition PostgresReviewStore_GetReviewsByUserID ::
  "string \<Rightarrow> ListReviewsParams \<Rightarrow> reviews_table \<Rightarrow> store_error + (Review list \<times> int)" where
  "PostgresReviewStore_GetReviewsByUserID userID params tbl =
     (let totalCount = int (length (filter (\<lambda>x. row_user_id x = userID) tbl)) in
      if totalCount = 0 then Inr ([], 0)
      else
        let orderBy =
              (if SortBy params \<noteq> '''' then
                 (if SortBy params = ''rating_desc'' then [(col_rating, DESC), (col_created_at, DESC)]
                  else [(col_created_at, DESC)])
               else [(col_created_at, DESC)])
        in case sql_limit_offset (PageSize params) (int64 (int64 (Page params - 1) * PageSize params))
                  (sql_order_by orderBy (filter (\<lambda>x. row_user_id x = userID) tbl)) of
             Inl pqErr \<Rightarrow> Inl (ErrOther ''failed to list reviews by userID'')
           | Inr rows \<Rightarrow> Inr (map scan_review rows, totalCount))"

text \<open>\<open>SELECT COALESCE(AVG(rating), 0) as average_rating, COUNT(rating) as rating_count
  FROM reviews WHERE movie_id = $1\<close>, scanned into the \<open>AggregatedRating\<close> whose
  \<open>MovieID\<close> has been set.\<close>

definition PostgresReviewStore_GetAggregatedRatingByMovieID ::
  "string \<Rightarrow> reviews_table \<Rightarrow> store_error + AggregatedRating" where
  "PostgresReviewStore_GetAggregatedRatingByMovieID movieID tbl =
     (let ratings = map row_rating (filter (\<lambda>x. row_movie_id x = movieID) tbl) in
      Inr \<lparr>agg_MovieID = movieID,
           AverageRating = scan_float64 (sql_coalesce_avg ratings),
           RatingCount = int (length ratings)\<rparr>)"

definition PostgresReviewStore_Update ::
  "Time \<Rightarrow> Review \<Rightarrow> reviews_table \<Rightarrow> store_error option \<times> reviews_table" where
  "PostgresReviewStore_Update now review tbl =
     (case sql_update (Rating review) (Comment review) now (ID review) (UserID review) tbl of
        (tbl', rowsAffected) \<Rightarrow>
          if rowsAffected = 0 then (Some ErrReviewNotFound, tbl') else (None, tbl'))"

definition PostgresReviewStore_Delete ::
  "string \<Rightarrow> string \<Rightarrow> reviews_table \<Rightarrow> store_error option \<times> reviews_table" where
  "PostgresReviewStore_Delete reviewID userID tbl =
     (case sql_delete reviewID userID tbl of
        (tbl', rowsAffected) \<Rightarrow>
          if rowsAffected = 0 then (Some ErrReviewNotFound, tbl') else (None, tbl'))"

section \<open>MockReviewStore\<close>

text \<open>
  The in-memory store: \<open>reviews\<close> by review id, \<open>reviewsByMovie\<close> by movie id, and
  \<open>nextReviewIdx\<close> (\<open>map[movieID]map[userID]bool\<close>), which the source keeps "for the
  check of \<open>ErrDuplicateReview\<close>". The maps hold pointers in Go; no method writes through
  a stored pointer, so the model holds the values. Every method runs under the store's
  lock, so calls are one after the other.
\<close>

record MockReviewStore =
  reviews :: "(string \<times> Review) list"
  reviewsByMovie :: "(string \<times> Review list) list"
  nextReviewIdx :: "(string \<times> (string \<times> bool) list) list"

definition NewMockReviewStore :: MockReviewStore where
  "NewMockReviewStore = \<lparr>reviews = [], reviewsByMovie = [], nextReviewIdx = []\<rparr>"

text \<open>A Go call either returns or panics.\<close>

datatype 'a outcome = Panics | Returns 'a

text \<open>The slice expression \<open>xs[lo:hi]\<close> of a slice whose capacity is its length.\<close>

definition go_slice :: "'a list \<Rightarrow> int \<Rightarrow> int \<Rightarrow> 'a list outcome" where
  "go_slice xs lo hi =
     (if 0 \<le> lo \<and> lo \<le> hi \<and> hi \<le> int (length xs)
      then Returns (take (nat (hi - lo)) (drop (nat lo) xs)) else Panics)"

text \<open>\<open>Create\<close>: the duplicate check on (movie, user) is commented out in the source;
  only a clash of review ids is refused.\<close>

definition MockReviewStore_Create ::
  "Review \<Rightarrow> MockReviewStore \<Rightarrow> store_error option \<times> MockReviewStore" where
  "MockReviewStore_Create review m =
     (case map_of (reviews m) (ID review) of
        Some _ \<Rightarrow> (Some (ErrOther ''review with this ID already exists''), m)
      | None \<Rightarrow>
          (None,
           m\<lparr>reviews := AList.update (ID review) review (reviews m),
             reviewsByMovie :=
               AList.update (MovieID review)
                 ((case map_of (reviewsByMovie m) (MovieID review) of
                     None \<Rightarrow> [] | Some rs \<Rightarrow> rs) @ [review])
                 (reviewsByMovie m),
             nextReviewIdx :=
               AList.update (MovieID review)
                 (AList.update (UserID review) True
                    (case map_of (nextReviewIdx m) (MovieID review) of
                       None \<Rightarrow> [] | Some users \<Rightarrow> users))
                 (nextReviewIdx m)\<rparr>))"

text \<open>The Go expression \<open>m.reviewsByMovie[movieID]\<close>: the slice under the key, the
  nil slice when the key is missing.\<close>

definition reviewsByMovie_at :: "MockReviewStore \<Rightarrow> string \<Rightarrow> Review list" where
  "reviewsByMovie_at m movieID =
     (case map_of (reviewsByMovie m) movieID of None \<Rightarrow> [] | Some rs \<Rightarrow> rs)"

definition MockReviewStore_GetReviewsByMovieID ::
  "string \<Rightarrow> ListReviewsParams \<Rightarrow> MockReviewStore \<Rightarrow> (Review list \<times> int) outcome" where
  "MockReviewStore_GetReviewsByMovieID movieID params m =
     (case map_of (reviewsByMovie m) movieID of
        None \<Rightarrow> Returns ([], 0)
      | Some movieReviews \<Rightarrow>
          if movieReviews = [] then Returns ([], 0)
          else
            let reviewsCopy = movieReviews;
                totalCount = int (length reviewsCopy);
                start0 = int64 (int64 (Page params - 1) * PageSize params);
                end0 = int64 (start0 + PageSize params);
                start = (if start0 < 0 then 0 else start0)
            in if totalCount \<le> start then Returns ([], totalCount)
               else
                 let end1 = (if totalCount < end0 then totalCount else end0)
                 in (case go_slice reviewsCopy start end1 of
                       Panics \<Rightarrow> Panics
                     | Returns page \<Rightarrow> Returns (page, totalCount)))"

definition MockReviewStore_GetByID :: "string \<Rightarrow> MockReviewStore \<Rightarrow> store_error + Review" where
  "MockReviewStore_GetByID reviewID m =
     (case map_of (reviews m) reviewID of
        Some review \<Rightarrow> Inr review
      | None \<Rightarrow> Inl ErrReviewNotFound)"

text \<open>\<open>Update\<close> ("not fully implemented"): replaces the entry of \<open>reviews\<close> by the given
  review with a new modification time; \<open>reviewsByMovie\<close> is left as it was.\<close>

definition MockReviewStore_Update ::
  "Time \<Rightarrow> Review \<Rightarrow> MockReviewStore \<Rightarrow> store_error option \<times> MockReviewStore" where
  "MockReviewStore_Update now review m =
     (case map_of (reviews m) (ID review) of
        None \<Rightarrow> (Some ErrReviewNotFound, m)
      | Some _ \<Rightarrow>
          (None, m\<lparr>reviews := AList.update (ID review) (review\<lparr>UpdatedAt := now\<rparr>) (reviews m)\<rparr>))"

text \<open>\<open>Delete\<close> ("not fully implemented"): the check of \<open>userID\<close> against the owner is a
  TODO of the source; \<open>userID\<close> is only used to clear \<open>nextReviewIdx\<close>.\<close>

definition MockReviewStore_Delete ::
  "string \<Rightarrow> string \<Rightarrow> MockReviewStore \<Rightarrow> store_error option \<times> MockReviewStore" where
  "MockReviewStore_Delete reviewID userID m =
     (case map_of (reviews m) reviewID of
        None \<Rightarrow> (Some ErrReviewNotFound, m)
      | Some reviewToDelete \<Rightarrow>
          let movieID = MovieID reviewToDelete in
          (None,
           m\<lparr>reviews := AList.delete reviewID (reviews m),
             reviewsByMovie :=
               (case map_of (reviewsByMovie m) movieID of
                  None \<Rightarrow> reviewsByMovie m
                | Some reviewsForMovie \<Rightarrow>
                    let newReviewsForMovie = filter (\<lambda>rev. ID rev \<noteq> reviewID) reviewsForMovie
                    in if 0 < length newReviewsForMovie
                       then AList.update movieID newReviewsForMovie (reviewsByMovie m)
                       else AList.delete movieID (reviewsByMovie m)),
             nextReviewIdx :=
               (case map_of (nextReviewIdx m) movieID of
                  None \<Rightarrow> nextReviewIdx m
                | Some users \<Rightarrow>
                    let users' = AList.delete userID users
                    in if length users' = 0
                       then AList.delete movieID (nextReviewIdx m)
                       else AList.update movieID users' (nextReviewIdx m))\<rparr>))"

text \<open>\<open>GetReviewsByUserID\<close>: every review of the user, whatever the page (sorting and
  pagination are a TODO of the source).\<close>

definition MockReviewStore_GetReviewsByUserID ::
  "string \<Rightarrow> ListReviewsParams \<Rightarrow> MockReviewStore \<Rightarrow> Review list \<times> int" where
  "MockReviewStore_GetReviewsByUserID userID params m =
     (let userReviews = filter (\<lambda>review. UserID review = userID) (map snd (reviews m))
      in (userReviews, int (length userReviews)))"

text \<open>\<open>GetAggregatedRatingByMovieID\<close> reads the slice of the movie in
  \<open>reviewsByMovie\<close>. The sum is an \<open>int32\<close>, the count an \<open>int64\<close>; the average is
  \<open>float64(sumRating) / float64(ratingCount)\<close>.\<close>

definition MockReviewStore_GetAggregatedRatingByMovieID ::
  "string \<Rightarrow> MockReviewStore \<Rightarrow> AggregatedRating" where
  "MockReviewStore_GetAggregatedRatingByMovieID movieID m =
     (case map_of (reviewsByMovie m) movieID of
        None \<Rightarrow> \<lparr>agg_MovieID = movieID, AverageRating = Finite 0, RatingCount = 0\<rparr>
      | Some movieReviews \<Rightarrow>
          if movieReviews = []
          then \<lparr>agg_MovieID = movieID, AverageRating = Finite 0, RatingCount = 0\<rparr>
          else
            let sumRating = foldl (\<lambda>s reviewPtr. int32 (s + Rating reviewPtr)) 0 movieReviews;
                ratingCount = foldl (\<lambda>c reviewPtr. int64 (c + 1)) 0 movieReviews;
                avgRating = (if 0 < ratingCount
                             then float64_quo (float64_of_int sumRating) (float64_of_int ratingCount)
                             else Finite 0)
            in \<lparr>agg_MovieID = movieID, AverageRating = avgRating, RatingCount = ratingCount\<rparr>)"

section \<open>Movie service: store, gRPC server and public endpoint\<close>

text \<open>\<open>domain.MovieStatus\<close> is a string type with three named values.\<close>

type_synonym MovieStatus = string

definition StatusPendingApproval :: MovieStatus where
  "StatusPendingApproval = ''pending_approval''"

definition StatusApproved :: MovieStatus where
  "StatusApproved = ''approved''"

definition StatusRejected :: MovieStatus where
  "StatusRejected = ''rejected''"

record Movie =
  movie_ID :: string
  Title :: string
  Description :: string
  ReleaseYear :: int
  Director :: string
  Genres :: "string list"
  Cast :: "string list"
  PosterURL :: string
  TrailerURL :: string
  SubmittedByUserID :: string
  Status :: MovieStatus
  movie_CreatedAt :: Time
  movie_UpdatedAt :: Time

datatype movie_store_error = ErrMovieNotFound | ErrMovieAlreadyExists | ErrMovieOther string

text \<open>\<open>PostgresMovieStore.GetByID\<close>: \<open>SELECT ... FROM movies WHERE id = $1\<close> over the
  table of movies; no row is \<open>ErrMovieNotFound\<close>.\<close>

definition PostgresMovieStore_GetByID :: "Movie list \<Rightarrow> string \<Rightarrow> movie_store_error + Movie" where
  "PostgresMovieStore_GetByID tbl mid =
     (case filter (\<lambda>x. movie_ID x = mid) tbl of
        [] \<Rightarrow> Inl ErrMovieNotFound
      | movie # _ \<Rightarrow> Inr movie)"

text \<open>\<open>MockMovieStore.GetByID\<close>: the movies created at run time, then the predefined ones.\<close>

record MockMovieStore =
  movies :: "(string \<times> Movie) list"
  predefinedMovies :: "(string \<times> Movie) list"

definition MockMovieStore_GetByID :: "MockMovieStore \<Rightarrow> string \<Rightarrow> movie_store_error + Movie" where
  "MockMovieStore_GetByID m mid =
     (case map_of (movies m) mid of
        Some movie \<Rightarrow> Inr movie
      | None \<Rightarrow>
          (case map_of (predefinedMovies m) mid of
             Some movie \<Rightarrow> Inr movie
           | None \<Rightarrow> Inl ErrMovieNotFound))"

text \<open>gRPC status codes, as far as the services use them, and the messages of
  \<open>moviepb\<close> and \<open>userpb\<close> that the review service reads.\<close>

datatype grpc_code =
  codes_InvalidArgument | codes_NotFound | codes_Internal | codes_Unavailable | codes_DeadlineExceeded

record MovieInfo =
  info_Id :: string
  info_Title :: string
  info_ReleaseYear :: int
  info_Status :: string

record UserResponse =
  resp_Id :: string
  resp_Username :: string
  resp_Email :: string

text \<open>The gRPC server of the movie service, over the \<open>GetByID\<close> of its store.\<close>

definition domainMovieToProtoInfo :: "Movie \<Rightarrow> MovieInfo" where
  "domainMovieToProtoInfo movie =
     \<lparr>info_Id = movie_ID movie, info_Title = Title movie,
      info_ReleaseYear = int32 (ReleaseYear movie), info_Status = Status movie\<rparr>"

definition Server_GetMovieInfo ::
  "(string \<Rightarrow> movie_store_error + Movie) \<Rightarrow> string \<Rightarrow> grpc_code + MovieInfo option" where
  "Server_GetMovieInfo getByID movie_id =
     (if movie_id = '''' then Inl codes_InvalidArgument
      else case getByID movie_id of
             Inl err \<Rightarrow> (if err = ErrMovieNotFound then Inl codes_NotFound else Inl codes_Internal)
           | Inr movie \<Rightarrow> Inr (Some (domainMovieToProtoInfo movie)))"

definition Server_CheckMovieExists ::
  "(string \<Rightarrow> movie_store_error + Movie) \<Rightarrow> string \<Rightarrow> grpc_code + bool" where
  "Server_CheckMovieExists getByID movie_id =
     (if movie_id = '''' then Inl codes_InvalidArgument
      else case getByID movie_id of
             Inl err \<Rightarrow> (if err = ErrMovieNotFound then Inr False else Inl codes_Internal)
           | Inr movie \<Rightarrow> Inr True)"

section \<open>HTTP responses\<close>

record FieldError =
  Field :: string
  Tag :: string

datatype body =
    ErrorBody string
  | ValidationFailedBody "FieldError list"
  | ReviewBody Review
  | ReviewsBody "Review list" int int int
  | RatingBody AggregatedRating
  | MovieBody Movie

record response =
  status :: nat
  body :: body

definition respondJSON :: "nat \<Rightarrow> body \<Rightarrow> response" where
  "respondJSON st data = \<lparr>status = st, body = data\<rparr>"

definition respondError :: "nat \<Rightarrow> string \<Rightarrow> response" where
  "respondError st message = respondJSON st (ErrorBody message)"

text \<open>\<open>MovieHandler.GetMovieByID\<close>, the public endpoint \<open>GET /api/movies/{movieId}\<close>:
  a movie that is not approved is answered as not found.\<close>

definition MovieHandler_GetMovieByID ::
  "(string \<Rightarrow> movie_store_error + Movie) \<Rightarrow> string \<Rightarrow> response" where
  "MovieHandler_GetMovieByID getByID movieID =
     (case getByID movieID of
        Inl err \<Rightarrow>
          (if err = ErrMovieNotFound then respondError 404 ''Movie not found''
           else respondError 500 ''Error finding movie'')
      | Inr movie \<Rightarrow>
          if Status movie \<noteq> StatusApproved then respondError 404 ''Movie not found''
          else respondJSON 200 (MovieBody movie))"

section \<open>Review service: gRPC clients\<close>

text \<open>The clients of the review service. \<open>rpc\<close> is the remote call (under its
  three-second timeout): it answers, or fails with a status code.\<close>

definition movieServiceGRPCClient_CheckMovieExists ::
  "(string \<Rightarrow> grpc_code + bool) \<Rightarrow> string \<Rightarrow> grpc_code + bool" where
  "movieServiceGRPCClient_CheckMovieExists rpc movieID =
     (if movieID = '''' then Inl codes_InvalidArgument
      else case rpc movieID of
             Inl err \<Rightarrow> Inl err
           | Inr res \<Rightarrow> Inr res)"

definition movieServiceGRPCClient_GetMovieInfo ::
  "(string \<Rightarrow> grpc_code + MovieInfo option) \<Rightarrow> string \<Rightarrow> grpc_code + MovieInfo option" where
  "movieServiceGRPCClient_GetMovieInfo rpc movieID =
     (if movieID = '''' then Inl codes_InvalidArgument
      else case rpc movieID of
             Inl err \<Rightarrow> Inl err
           | Inr None \<Rightarrow> Inl codes_NotFound
           | Inr (Some info) \<Rightarrow> Inr (Some info))"

definition userServiceGRPCClient_GetUser ::
  "(string \<Rightarrow> grpc_code + UserResponse) \<Rightarrow> string \<Rightarrow> grpc_code + UserResponse option" where
  "userServiceGRPCClient_GetUser rpc userID =
     (if userID = '''' then Inl codes_InvalidArgument
      else case rpc userID of
             Inl err \<Rightarrow> Inl err
           | Inr res \<Rightarrow> Inr (Some res))"

section \<open>Review service: request validation\<close>

text \<open>
  The validator library applies the tags of \<open>CreateReviewRequest\<close> field by field, and
  within a field tag by tag, up to the first tag that fails: \<open>required\<close> refuses the
  zero value, \<open>gte\<close> and \<open>lte\<close> compare the number, \<open>max\<close> on a string bounds its
  number of runes. The library's test of the \<open>uuid\<close> tag is the parameter \<open>isUUID\<close>.
  Request strings come out of the JSON decoder, so they are valid UTF-8, where the
  runes are the bytes that are not continuation bytes.
\<close>

definition is_continuation_byte :: "char \<Rightarrow> bool" where
  "is_continuation_byte c = (128 \<le> (of_char c :: nat) \<and> (of_char c :: nat) < 192)"

definition RuneCountInString :: "string \<Rightarrow> nat" where
  "RuneCountInString s = length (filter (\<lambda>c. \<not> is_continuation_byte c) s)"

definition validate_MovieID :: "(string \<Rightarrow> bool) \<Rightarrow> string \<Rightarrow> FieldError list" where
  "validate_MovieID isUUID v =
     (if v = '''' then [\<lparr>Field = ''MovieID'', Tag = ''required''\<rparr>]
      else if isUUID v then []
      else [\<lparr>Field = ''MovieID'', Tag = ''uuid''\<rparr>])"

definition validate_Rating :: "int \<Rightarrow> FieldError list" where
  "validate_Rating v =
     (if v = 0 then [\<lparr>Field = ''Rating'', Tag = ''required''\<rparr>]
      else if v < 1 then [\<lparr>Field = ''Rating'', Tag = ''gte''\<rparr>]
      else if 10 < v then [\<lparr>Field = ''Rating'', Tag = ''lte''\<rparr>]
      else [])"

definition validate_Comment :: "string \<Rightarrow> FieldError list" where
  "validate_Comment v =
     (if 2000 < RuneCountInString v then [\<lparr>Field = ''Comment'', Tag = ''max''\<rparr>] else [])"

definition StructCtx :: "(string \<Rightarrow> bool) \<Rightarrow> CreateReviewRequest \<Rightarrow> FieldError list" where
  "StructCtx isUUID req =
     validate_MovieID isUUID (req_MovieID req) @ validate_Rating (req_Rating req)
       @ validate_Comment (req_Comment req)"

section \<open>Review service: HTTP handlers\<close>

text \<open>
  The interfaces the handler depends on. \<open>ReviewStore\<close> is the store interface over a
  store state \<open>'st\<close>; a method that reads the clock takes the reading as its first
  argument. \<open>Create\<close> also gives back the review as the caller's pointer shows it after
  the call. A client call answers or fails; a nil message is \<open>None\<close>.
\<close>

record 'st ReviewStore =
  Create :: "Time \<Rightarrow> Review \<Rightarrow> 'st \<Rightarrow> (store_error option \<times> Review) \<times> 'st"
  GetByID :: "string \<Rightarrow> 'st \<Rightarrow> store_error + Review"
  Update :: "Time \<Rightarrow> Review \<Rightarrow> 'st \<Rightarrow> store_error option \<times> 'st"
  Delete :: "string \<Rightarrow> string \<Rightarrow> 'st \<Rightarrow> store_error option \<times> 'st"
  GetReviewsByMovieID :: "string \<Rightarrow> ListReviewsParams \<Rightarrow> 'st \<Rightarrow> store_error + (Review list \<times> int)"
  GetReviewsByUserID :: "string \<Rightarrow> ListReviewsParams \<Rightarrow> 'st \<Rightarrow> store_error + (Review list \<times> int)"
  GetAggregatedRatingByMovieID :: "string \<Rightarrow> 'st \<Rightarrow> store_error + AggregatedRating"

record MovieServiceClient =
  CheckMovieExists :: "string \<Rightarrow> grpc_code + bool"
  GetMovieInfo :: "string \<Rightarrow> grpc_code + MovieInfo option"

record UserServiceClient =
  GetUser :: "string \<Rightarrow> grpc_code + UserResponse option"

record 'st ReviewHandler =
  store :: "'st ReviewStore"
  validator :: "string \<Rightarrow> bool"
  userServiceClient :: UserServiceClient
  movieServiceClient :: MovieServiceClient

text \<open>What a request reads from its surroundings: the fresh id of \<open>uuid.NewString\<close>,
  the two clock readings of the handler and the one of the store.\<close>

record create_reads =
  uuid_NewString :: string
  handler_now1 :: Time
  handler_now2 :: Time
  store_now :: Time

text \<open>The calls a handler makes to its clients and to the store, in order.\<close>

datatype call =
    Call_CheckMovieExists string
  | Call_Create Review
  | Call_GetAggregatedRatingByMovieID string

text \<open>
  \<open>CreateReview\<close>. The request body is \<open>None\<close> when the JSON decoder refuses it. The
  result is the response, the calls made, and the store afterwards. The body of a
  failed validation stands for the message "Validation failed: " followed by the
  library's text for the listed field errors.
\<close>

definition ReviewHandler_CreateReview ::
  "'st ReviewHandler \<Rightarrow> create_reads \<Rightarrow> CreateReviewRequest option \<Rightarrow> 'st
     \<Rightarrow> (response \<times> call list) \<times> 'st" where
  "ReviewHandler_CreateReview h env decoded st =
     (let userID = ''3aeb2a43-616f-4d62-a5e4-958e0802a31e'' in
      case decoded of
        None \<Rightarrow> ((respondError 400 ''Invalid request payload'', []), st)
      | Some req \<Rightarrow>
          (case StructCtx (validator h) req of
             e # es \<Rightarrow> ((respondJSON 400 (ValidationFailedBody (e # es)), []), st)
           | [] \<Rightarrow>
               (case CheckMovieExists (movieServiceClient h) (req_MovieID req) of
                  Inl err \<Rightarrow>
                    ((respondError 500 ''Could not verify movie existence'',
                      [Call_CheckMovieExists (req_MovieID req)]), st)
                | Inr movieExists \<Rightarrow>
                    if \<not> movieExists
                    then ((respondError 404 ''Movie not found'',
                           [Call_CheckMovieExists (req_MovieID req)]), st)
                    else
                      let review =
                            \<lparr>ID = uuid_NewString env, MovieID = req_MovieID req, UserID = userID,
                             Rating = req_Rating req, Comment = req_Comment req,
                             CreatedAt = handler_now1 env, UpdatedAt = handler_now2 env,
                             Username = '''', MovieTitle = ''''\<rparr>;
                          calls = [Call_CheckMovieExists (req_MovieID req), Call_Create review]
                      in (case Create (store h) (store_now env) review st of
                            ((Some err, review'), st') \<Rightarrow>
                              (if err = ErrDuplicateReview
                               then ((respondError 409 ''You have already reviewed this movie.'', calls), st')
                               else ((respondError 500 ''Failed to create review'', calls), st'))
                          | ((None, review'), st') \<Rightarrow>
                              ((respondJSON 201 (ReviewBody review'), calls), st')))))"

text \<open>
  The listing handlers. \<open>page_q\<close> and \<open>limit_q\<close> are what \<open>strconv.Atoi\<close> gives for the
  query parameters \<open>page\<close> and \<open>limit\<close> (0 for a missing or malformed one), \<open>sort_by\<close>
  is the query parameter as it is. The handlers do not change the store; the model
  gives their response.
\<close>

text \<open>The parameters both listing handlers build from the query: the page is at least
  1 (default 1), the page size is between 1 and 50 (default 10).\<close>

definition list_params :: "int \<Rightarrow> int \<Rightarrow> string \<Rightarrow> ListReviewsParams" where
  "list_params page_q limit_q sort_by =
     (let page = (if page_q \<le> 0 then 1 else page_q);
          limit = (if limit_q \<le> 0 then 10 else if 50 < limit_q then 50 else limit_q)
      in \<lparr>Page = page, PageSize = limit, SortBy = sort_by\<rparr>)"

text \<open>The body of the loop over the rows of a listing by movie: the user lookup, then
  the movie lookup; a failed lookup is logged and the field is left as it is.\<close>

definition enrich_for_movie :: "'st ReviewHandler \<Rightarrow> Review \<Rightarrow> Review" where
  "enrich_for_movie h rev1 =
     (let enrichedRev = rev1;
          enrichedRev =
            (case GetUser (userServiceClient h) (UserID rev1) of
               Inl err \<Rightarrow> enrichedRev
             | Inr None \<Rightarrow> enrichedRev
             | Inr (Some userInfo) \<Rightarrow> enrichedRev\<lparr>Username := resp_Username userInfo\<rparr>);
          enrichedRev =
            (case GetMovieInfo (movieServiceClient h) (MovieID rev1) of
               Inl movieErr \<Rightarrow> enrichedRev
             | Inr None \<Rightarrow> enrichedRev
             | Inr (Some movieInfo) \<Rightarrow> enrichedRev\<lparr>MovieTitle := info_Title movieInfo\<rparr>)
      in enrichedRev)"

definition ReviewHandler_GetReviewsForMovie ::
  "'st ReviewHandler \<Rightarrow> string \<Rightarrow> int \<Rightarrow> int \<Rightarrow> string \<Rightarrow> 'st \<Rightarrow> response" where
  "ReviewHandler_GetReviewsForMovie h movieID page_q limit_q sort_by st =
     (let params = list_params page_q limit_q sort_by
      in case GetReviewsByMovieID (store h) movieID params st of
           Inl err \<Rightarrow> respondError 500 ''Failed to retrieve reviews''
         | Inr (revs, totalCount) \<Rightarrow>
             respondJSON 200
               (ReviewsBody (map (enrich_for_movie h) revs) totalCount (Page params) (PageSize params)))"

text \<open>The body of the loop over the rows of a listing by user: the user name is the
  one fetched before the store was read (the getter of a nil message gives the empty
  string).\<close>

definition enrich_for_user :: "'st ReviewHandler \<Rightarrow> UserResponse option \<Rightarrow> Review \<Rightarrow> Review" where
  "enrich_for_user h targetUserInfo rev1 =
     (let enrichedRev = rev1;
          enrichedRev =
            enrichedRev\<lparr>Username := (case targetUserInfo of None \<Rightarrow> '''' | Some u \<Rightarrow> resp_Username u)\<rparr>;
          enrichedRev =
            (case GetMovieInfo (movieServiceClient h) (MovieID rev1) of
               Inl movieErr \<Rightarrow> enrichedRev
             | Inr None \<Rightarrow> enrichedRev
             | Inr (Some movieInfo) \<Rightarrow> enrichedRev\<lparr>MovieTitle := info_Title movieInfo\<rparr>)
      in enrichedRev)"

definition ReviewHandler_GetReviewsByUserID ::
  "'st ReviewHandler \<Rightarrow> string \<Rightarrow> int \<Rightarrow> int \<Rightarrow> string \<Rightarrow> 'st \<Rightarrow> response" where
  "ReviewHandler_GetReviewsByUserID h targetUserID page_q limit_q sort_by st =
     (case GetUser (userServiceClient h) targetUserID of
        Inl err \<Rightarrow> respondError 404 ''User not found or error fetching user details.''
      | Inr targetUserInfo \<Rightarrow>
          (let params = list_params page_q limit_q sort_by
           in (case GetReviewsByUserID (store h) targetUserID params st of
                 Inl err \<Rightarrow> respondError 500 (''Failed to retrieve user'' @ [CHR 0x27] @ ''s reviews'')
               | Inr (revs, totalCount) \<Rightarrow>
                   respondJSON 200
                     (ReviewsBody (map (enrich_for_user h targetUserInfo) revs) totalCount
                        (Page params) (PageSize params)))))"

definition ReviewHandler_GetMovieAggregatedRating ::
  "'st ReviewHandler \<Rightarrow> string \<Rightarrow> 'st \<Rightarrow> response \<times> call list" where
  "ReviewHandler_GetMovieAggregatedRating h movieID st =
     (case CheckMovieExists (movieServiceClient h) movieID of
        Inl err \<Rightarrow>
          (respondError 500 ''Could not verify movie existence'', [Call_CheckMovieExists movieID])
      | Inr movieExists \<Rightarrow>
          if \<not> movieExists
          then (respondError 404 ''Movie not found'', [Call_CheckMovieExists movieID])
          else
            (case GetAggregatedRatingByMovieID (store h) movieID st of
               Inl err \<Rightarrow>
                 (respondError 500 ''Failed to retrieve aggregated rating'',
                  [Call_CheckMovieExists movieID, Call_GetAggregatedRatingByMovieID movieID])
             | Inr aggRating \<Rightarrow>
                 (respondJSON 200 (RatingBody aggRating),
                  [Call_CheckMovieExists movieID, Call_GetAggregatedRatingByMovieID movieID])))"

text \<open>The store the service runs with (\<open>main\<close> passes a \<open>PostgresReviewStore\<close>).\<close>

definition PostgresReviewStore :: "reviews_table ReviewStore" where
  "PostgresReviewStore =
     \<lparr>Create = PostgresReviewStore_Create,
      GetByID = PostgresReviewStore_GetByID,
      Update = PostgresReviewStore_Update,
      Delete = PostgresReviewStore_Delete,
      GetReviewsByMovieID = PostgresReviewStore_GetReviewsByMovieID,
      GetReviewsByUserID = PostgresReviewStore_GetReviewsByUserID,
      GetAggregatedRatingByMovieID = PostgresReviewStore_GetAggregatedRatingByMovieID\<rparr>"

text \<open>
  The wiring of the two \<open>main\<close> functions: the review handler over the PostgreSQL
  store and the two gRPC clients, and the remote calls of the movie client answered by
  the movie service's gRPC server over its own PostgreSQL store.
\<close>

definition wired_ReviewHandler ::
  "(string \<Rightarrow> bool) \<Rightarrow> (string \<Rightarrow> grpc_code + UserResponse) \<Rightarrow> (string \<Rightarrow> grpc_code + bool)
     \<Rightarrow> (string \<Rightarrow> grpc_code + MovieInfo option) \<Rightarrow> reviews_table ReviewHandler" where
  "wired_ReviewHandler isUUID user_rpc exists_rpc info_rpc =
     \<lparr>store = PostgresReviewStore,
      validator = isUUID,
      userServiceClient = \<lparr>GetUser = userServiceGRPCClient_GetUser user_rpc\<rparr>,
      movieServiceClient =
        \<lparr>CheckMovieExists = movieServiceGRPCClient_CheckMovieExists exists_rpc,
         GetMovieInfo = movieServiceGRPCClient_GetMovieInfo info_rpc\<rparr>\<rparr>"

definition ReviewHandler_over_movie_table ::
  "(string \<Rightarrow> bool) \<Rightarrow> (string \<Rightarrow> grpc_code + UserResponse) \<Rightarrow> Movie list
     \<Rightarrow> reviews_table ReviewHandler" where
  "ReviewHandler_over_movie_table isUUID user_rpc movie_tbl =
     wired_ReviewHandler isUUID user_rpc
       (Server_CheckMovieExists (PostgresMovieStore_GetByID movie_tbl))
       (Server_GetMovieInfo (PostgresMovieStore_GetByID movie_tbl))"

section \<open>Words of the specification\<close>

text \<open>The specification's "dependency-unavailable (502-class)" status of a response:
  the gateway statuses 502, 503 and 504.\<close>

definition dependency_unavailable_status :: "nat \<Rightarrow> bool" where
  "dependency_unavailable_status s = (s = 502 \<or> s = 503 \<or> s = 504)"

text \<open>The reviews the in-memory store holds for a movie: the entries of its map
  \<open>reviews\<close> (the reviews by id, which \<open>GetByID\<close> reads) with that movie id.\<close>

definition mock_stored_reviews :: "MockReviewStore \<Rightarrow> string \<Rightarrow> Review list" where
  "mock_stored_reviews m movieID = filter (\<lambda>review. MovieID review = movieID) (map snd (reviews m))"

text \<open>The sort keys the specification gives for a \<open>sortKey\<close>.\<close>

definition spec_sort_keys :: "string \<Rightarrow> sort_key list" where
  "spec_sort_keys sort_by =
     (if sort_by = ''rating_desc'' then [(col_rating, DESC), (col_created_at, DESC)]
      else if sort_by = ''rating_asc'' then [(col_rating, ASC), (col_created_at, DESC)]
      else [(col_created_at, DESC)])"

section \<open>Example data\<close>

definition mk_row :: "string \<Rightarrow> string \<Rightarrow> string \<Rightarrow> int \<Rightarrow> Time \<Rightarrow> review_row" where
  "mk_row rid mid uid rt t =
     \<lparr>row_id = rid, row_movie_id = mid, row_user_id = uid, row_rating = rt,
      row_comment = '''', row_created_at = t, row_updated_at = t\<rparr>"

definition mk_review :: "string \<Rightarrow> string \<Rightarrow> string \<Rightarrow> int \<Rightarrow> Time \<Rightarrow> Review" where
  "mk_review rid mid uid rt t =
     \<lparr>ID = rid, MovieID = mid, UserID = uid, Rating = rt, Comment = '''',
      CreatedAt = t, UpdatedAt = t, Username = '''', MovieTitle = ''''\<rparr>"

text \<open>Two reviews of movie \<open>m1\<close> by the same user \<open>u1\<close>, with different review ids.\<close>

definition review_a :: Review where
  "review_a = mk_review ''r1'' ''m1'' ''u1'' 7 100"

definition review_b :: Review where
  "review_b = mk_review ''r2'' ''m1'' ''u1'' 2 200"

text \<open>The in-memory store after \<open>Create(review_a)\<close> on a new store.\<close>

definition mock_with_review_a :: MockReviewStore where
  "mock_with_review_a =
     \<lparr>reviews = [(''r1'', review_a)], reviewsByMovie = [(''m1'', [review_a])],
      nextReviewIdx = [(''m1'', [(''u1'', True)])]\<rparr>"

text \<open>Ratings 3, 3, 5 on movie \<open>m1\<close>, created at increasing times.\<close>

definition table_335 :: reviews_table where
  "table_335 = [mk_row ''r1'' ''m1'' ''u1'' 3 100, mk_row ''r2'' ''m1'' ''u2'' 3 200,
                mk_row ''r3'' ''m1'' ''u3'' 5 300]"

text \<open>Two reviews of user \<open>u1\<close>: rating 3 created first, rating 5 created later.\<close>

definition table_u1 :: reviews_table where
  "table_u1 = [mk_row ''r1'' ''m1'' ''u1'' 3 100, mk_row ''r2'' ''m2'' ''u1'' 5 200]"

text \<open>Ratings 2, 4, 6 on movie \<open>m1\<close>, in the table and in the in-memory store.\<close>

definition table_246 :: reviews_table where
  "table_246 = [mk_row ''r1'' ''m1'' ''u1'' 2 100, mk_row ''r2'' ''m1'' ''u2'' 4 200,
                mk_row ''r3'' ''m1'' ''u3'' 6 300]"

text \<open>The in-memory store after \<open>Update\<close> at time 300 of review \<open>r1\<close> with the rating
  1 on the store that holds \<open>review_a\<close> (rating 7).\<close>

definition mock_after_update :: MockReviewStore where
  "mock_after_update =
     \<lparr>reviews = [(''r1'', review_a\<lparr>Rating := 1, UpdatedAt := 300\<rparr>)],
      reviewsByMovie = [(''m1'', [review_a])],
      nextReviewIdx = [(''m1'', [(''u1'', True)])]\<rparr>"

text \<open>An in-memory store with the ratings 2147483647 and 1 on movie \<open>m1\<close>.\<close>

definition mock_large_ratings :: MockReviewStore where
  "mock_large_ratings =
     \<lparr>reviews = [(''r1'', mk_review ''r1'' ''m1'' ''u1'' 2147483647 100),
                 (''r2'', mk_review ''r2'' ''m1'' ''u2'' 1 200)],
      reviewsByMovie = [(''m1'', [mk_review ''r1'' ''m1'' ''u1'' 2147483647 100,
                                 mk_review ''r2'' ''m1'' ''u2'' 1 200])],
      nextReviewIdx = [(''m1'', [(''u1'', True), (''u2'', True)])]\<rparr>"

text \<open>Ratings 3, 3, 4 on movie \<open>m1\<close>, in the table and in the in-memory store.\<close>

definition table_334 :: reviews_table where
  "table_334 = [mk_row ''r1'' ''m1'' ''u1'' 3 100, mk_row ''r2'' ''m1'' ''u2'' 3 200,
                mk_row ''r3'' ''m1'' ''u3'' 4 300]"

definition mock_334 :: MockReviewStore where
  "mock_334 =
     \<lparr>reviews = [(''r1'', mk_review ''r1'' ''m1'' ''u1'' 3 100),
                 (''r2'', mk_review ''r2'' ''m1'' ''u2'' 3 200),
                 (''r3'', mk_review ''r3'' ''m1'' ''u3'' 4 300)],
      reviewsByMovie = [(''m1'', [mk_review ''r1'' ''m1'' ''u1'' 3 100,
                                 mk_review ''r2'' ''m1'' ''u2'' 3 200,
                                 mk_review ''r3'' ''m1'' ''u3'' 4 300])],
      nextReviewIdx = [(''m1'', [(''u1'', True), (''u2'', True), (''u3'', True)])]\<rparr>"

definition mock_246 :: MockReviewStore where
  "mock_246 =
     \<lparr>reviews = [(''r1'', mk_review ''r1'' ''m1'' ''u1'' 2 100),
                 (''r2'', mk_review ''r2'' ''m1'' ''u2'' 4 200),
                 (''r3'', mk_review ''r3'' ''m1'' ''u3'' 6 300)],
      reviewsByMovie = [(''m1'', [mk_review ''r1'' ''m1'' ''u1'' 2 100,
                                 mk_review ''r2'' ''m1'' ''u2'' 4 200,
                                 mk_review ''r3'' ''m1'' ''u3'' 6 300])],
      nextReviewIdx = [(''m1'', [(''u1'', True), (''u2'', True), (''u3'', True)])]\<rparr>"

text \<open>A movie awaiting approval, a request to review it, and the readings of the
  request. In the examples the validator's \<open>uuid\<close> test accepts the strings of 36
  characters.\<close>

definition example_isUUID :: "string \<Rightarrow> bool" where
  "example_isUUID v = (length v = 36)"

definition pending_movie :: Movie where
  "pending_movie =
     \<lparr>movie_ID = ''11111111-1111-1111-1111-111111111111'', Title = ''Pending'',
      Description = '''', ReleaseYear = 2024, Director = '''', Genres = [], Cast = [],
      PosterURL = '''', TrailerURL = '''', SubmittedByUserID = '''',
      Status = StatusPendingApproval, movie_CreatedAt = 0, movie_UpdatedAt = 0\<rparr>"

definition example_request :: CreateReviewRequest where
  "example_request =
     \<lparr>req_MovieID = ''11111111-1111-1111-1111-111111111111'', req_Rating = 7, req_Comment = ''ok''\<rparr>"

definition example_reads :: create_reads where
  "example_reads = \<lparr>uuid_NewString = ''r9'', handler_now1 = 10, handler_now2 = 11, store_now = 12\<rparr>"

definition user_rpc_down :: "string \<Rightarrow> grpc_code + UserResponse" where
  "user_rpc_down userID = Inl codes_Unavailable"

definition user_rpc_up :: "string \<Rightarrow> grpc_code + UserResponse" where
  "user_rpc_up userID = Inr \<lparr>resp_Id = userID, resp_Username = ''alice'', resp_Email = ''''\<rparr>"

definition exists_rpc_down :: "string \<Rightarrow> grpc_code + bool" where
  "exists_rpc_down movieID = Inl codes_Unavailable"

definition exists_rpc_no :: "string \<Rightarrow> grpc_code + bool" where
  "exists_rpc_no movieID = Inr False"

definition info_rpc_down :: "string \<Rightarrow> grpc_code + MovieInfo option" where
  "info_rpc_down movieID = Inl codes_Unavailable"

section \<open>Properties\<close>

lemma int64_id: "- (2 ^ 63) \<le> x \<Longrightarrow> x < 2 ^ 63 \<Longrightarrow> int64 x = x"
  by (simp add: int64_def)

subsection \<open>The in-memory store: duplicate reviews, ownership, pagination\<close>

text \<open>
  Claim C1. The specification: for a (movie, user) pair that already has a stored
  review, \<open>create\<close> fails with \<open>DuplicateReview\<close> and inserts nothing, in every store,
  the in-memory one included. The in-memory store does not do so: after \<open>review_a\<close>
  (movie \<open>m1\<close>, user \<open>u1\<close>) is created, creating \<open>review_b\<close> for the same movie and user
  returns no error and the store then holds both reviews. (The PostgreSQL store keeps
  the contract: \<open>PostgresReviewStore_Create_duplicate\<close> below.)
\<close>

theorem MockReviewStore_Create_accepts_second_review_of_pair:
  "MovieID review_b = MovieID review_a \<and> UserID review_b = UserID review_a \<and>
   MockReviewStore_Create review_a NewMockReviewStore = (None, mock_with_review_a) \<and>
   MockReviewStore_Create review_b mock_with_review_a =
     (None,
      \<lparr>reviews = [(''r1'', review_a), (''r2'', review_b)],
       reviewsByMovie = [(''m1'', [review_a, review_b])],
       nextReviewIdx = [(''m1'', [(''u1'', True)])]\<rparr>)"
  by (simp add: MockReviewStore_Create_def NewMockReviewStore_def mock_with_review_a_def
      review_a_def review_b_def mk_review_def)

text \<open>
  Claim C9. The specification: \<open>update\<close> and \<open>delete\<close> succeed only for a row that
  matches both the review id and the calling user, and fail with \<open>NotFound\<close> otherwise,
  leaving the store unchanged. The in-memory \<open>Delete\<close> does not look at the owner:
  user \<open>u2\<close> deletes the review \<open>r1\<close> of user \<open>u1\<close>, the call returns no error and the
  review is gone. (The PostgreSQL store keeps the contract:
  \<open>PostgresReviewStore_Delete_no_match\<close> and \<open>PostgresReviewStore_Update_no_match\<close>
  below.)
\<close>

theorem MockReviewStore_Delete_by_another_user:
  "UserID review_a = ''u1'' \<and>
   MockReviewStore_Delete ''r1'' ''u2'' mock_with_review_a =
     (None, \<lparr>reviews = [], reviewsByMovie = [], nextReviewIdx = [(''m1'', [(''u1'', True)])]\<rparr>)"
  by (simp add: MockReviewStore_Delete_def mock_with_review_a_def review_a_def mk_review_def
      AList.delete_eq)

text \<open>The in-memory \<open>Update\<close> does not look at the owner either: the review \<open>r1\<close> of
  user \<open>u1\<close> is replaced by what user \<open>u2\<close> sends (the copy under \<open>reviewsByMovie\<close>
  keeps the old values).\<close>

lemma MockReviewStore_Update_by_another_user:
  "MockReviewStore_Update 300 (review_a\<lparr>UserID := ''u2'', Rating := 1\<rparr>) mock_with_review_a =
     (None,
      \<lparr>reviews = [(''r1'', review_a\<lparr>UserID := ''u2'', Rating := 1, UpdatedAt := 300\<rparr>)],
       reviewsByMovie = [(''m1'', [review_a])],
       nextReviewIdx = [(''m1'', [(''u1'', True)])]\<rparr>)"
  by (simp add: MockReviewStore_Update_def mock_with_review_a_def review_a_def mk_review_def)

text \<open>
  Claim C5. The specification: a listing (by movie or by user) starts at offset
  \<open>(page - 1) * pageSize\<close>, and a page beyond the result set is empty, with the right
  total. The in-memory \<open>GetReviewsByUserID\<close> does not paginate: with one review of user
  \<open>u1\<close> in the store, page 2 of size 10 still holds that review. (The listings of the
  PostgreSQL store and the in-memory listing by movie do paginate:
  \<open>PostgresReviewStore_GetReviewsByMovieID_page\<close>,
  \<open>PostgresReviewStore_GetReviewsByUserID_page\<close> and
  \<open>MockReviewStore_GetReviewsByMovieID_page\<close> below.)
\<close>

theorem MockReviewStore_GetReviewsByUserID_ignores_page:
  "MockReviewStore_GetReviewsByUserID ''u1'' \<lparr>Page = 2, PageSize = 10, SortBy = ''''\<rparr>
     mock_with_review_a = ([review_a], 1)"
  by (simp add: MockReviewStore_GetReviewsByUserID_def mock_with_review_a_def review_a_def
      mk_review_def)

subsection \<open>Sort order of the listings\<close>

text \<open>
  Claim C4. The specification: \<open>rating_asc\<close> orders a listing by rating ascending (ties
  by creation time descending), for the listing by movie and the listing by user alike.
  \<open>PostgresReviewStore.GetReviewsByUserID\<close> has no case for \<open>rating_asc\<close>: the two
  reviews of user \<open>u1\<close> (rating 3 created at 100, rating 5 created at 200) come back by
  creation time descending, rating 5 first. The listing by movie orders the ratings
  3, 3, 5 of \<open>table_335\<close> as the specification says.
\<close>

theorem PostgresReviewStore_GetReviewsByUserID_rating_asc:
  "PostgresReviewStore_GetReviewsByUserID ''u1''
     \<lparr>Page = 1, PageSize = 10, SortBy = ''rating_asc''\<rparr> table_u1
     = Inr (map scan_review [mk_row ''r2'' ''m2'' ''u1'' 5 200, mk_row ''r1'' ''m1'' ''u1'' 3 100], 2)
   \<and> PostgresReviewStore_GetReviewsByMovieID ''m1''
     \<lparr>Page = 1, PageSize = 10, SortBy = ''rating_asc''\<rparr> table_335
     = Inr (map scan_review [mk_row ''r2'' ''m1'' ''u2'' 3 200, mk_row ''r1'' ''m1'' ''u1'' 3 100,
                              mk_row ''r3'' ''m1'' ''u3'' 5 300], 3)"
  by (simp add: PostgresReviewStore_GetReviewsByUserID_def PostgresReviewStore_GetReviewsByMovieID_def
      table_u1_def table_335_def mk_row_def sql_limit_offset_def sql_order_by_def int64_def)

text \<open>The order of \<open>ORDER BY\<close> is total and transitive, and its result is sorted and
  holds the same rows.\<close>

lemma row_le_total: "row_le ks a b \<or> row_le ks b a"
proof (induction ks)
  case Nil
  then show ?case by simp
next
  case (Cons k ks)
  obtain c d where k: "k = (c, d)" by (cases k)
  show ?case using Cons k by (cases d) auto
qed

lemma row_le_trans: "row_le ks a b \<Longrightarrow> row_le ks b c \<Longrightarrow> row_le ks a c"
proof (induction ks)
  case Nil
  then show ?case by simp
next
  case (Cons k ks)
  obtain col d where k: "k = (col, d)" by (cases k)
  show ?case using Cons k by (cases d) (auto split: if_splits)
qed

lemma set_insert_row: "set (insert_row ks x ys) = insert x (set ys)"
  by (induction ys) auto

lemma sorted_insert_row:
  "sorted_wrt (row_le ks) ys \<Longrightarrow> sorted_wrt (row_le ks) (insert_row ks x ys)"
proof (induction ys)
  case Nil
  then show ?case by simp
next
  case (Cons y ys)
  show ?case
  proof (cases "row_le ks x y")
    case True
    then have "\<forall>z\<in>set ys. row_le ks x z"
      using Cons.prems row_le_trans by auto
    with True Cons.prems show ?thesis by simp
  next
    case False
    then have "row_le ks y x" using row_le_total by blast
    with False Cons show ?thesis by (auto simp: set_insert_row)
  qed
qed

lemma sorted_sql_order_by: "sorted_wrt (row_le ks) (sql_order_by ks rows)"
  unfolding sql_order_by_def by (induction rows) (simp_all add: sorted_insert_row)

lemma mset_insert_row: "mset (insert_row ks x ys) = add_mset x (mset ys)"
  by (induction ys) auto

lemma mset_sql_order_by: "mset (sql_order_by ks rows) = mset rows"
  unfolding sql_order_by_def by (induction rows) (simp_all add: mset_insert_row)

lemma length_sql_order_by: "length (sql_order_by ks rows) = length rows"
proof -
  have "size (mset (sql_order_by ks rows)) = size (mset rows)"
    by (simp add: mset_sql_order_by)
  then show ?thesis by simp
qed


subsection \<open>The PostgreSQL store: uniqueness and ownership\<close>

text \<open>
  With the pair (movie, user) already in the table, \<open>Create\<close> fails and the table stays
  as it was; the error is \<open>ErrDuplicateReview\<close> when the review id is new (a review id
  that is taken as well violates the primary key first). A second \<open>Create\<close> for the
  pair of a successful first one is the case of \<open>PostgresReviewStore_Create_twice\<close>.
  \<open>Update\<close> and \<open>Delete\<close> act on the rows that match both the id and the user, and
  answer \<open>ErrReviewNotFound\<close>, with the table unchanged, when there is none.
\<close>

lemma PostgresReviewStore_Create_duplicate:
  assumes "list_ex (\<lambda>x. row_user_id x = UserID review \<and> row_movie_id x = MovieID review) tbl"
      and "\<not> list_ex (\<lambda>x. row_id x = ID review) tbl"
  shows "PostgresReviewStore_Create now review tbl =
           ((Some ErrDuplicateReview, review\<lparr>CreatedAt := now, UpdatedAt := now\<rparr>), tbl)"
  using assms by (simp add: PostgresReviewStore_Create_def sql_insert_def unique_violation_def Let_def)

lemma PostgresReviewStore_Create_pair_taken:
  assumes "list_ex (\<lambda>x. row_user_id x = UserID review \<and> row_movie_id x = MovieID review) tbl"
  shows "fst (fst (PostgresReviewStore_Create now review tbl)) \<noteq> None \<and>
         snd (PostgresReviewStore_Create now review tbl) = tbl"
  using assms by (simp add: PostgresReviewStore_Create_def sql_insert_def unique_violation_def Let_def)

lemma PostgresReviewStore_Create_twice:
  assumes "PostgresReviewStore_Create now1 review1 tbl = ((None, r1), tbl1)"
      and "MovieID review2 = MovieID review1" and "UserID review2 = UserID review1"
      and "\<not> list_ex (\<lambda>x. row_id x = ID review2) tbl1"
  shows "PostgresReviewStore_Create now2 review2 tbl1 =
           ((Some ErrDuplicateReview, review2\<lparr>CreatedAt := now2, UpdatedAt := now2\<rparr>), tbl1)"
proof -
  have "list_ex (\<lambda>x. row_user_id x = UserID review2 \<and> row_movie_id x = MovieID review2) tbl1"
    using assms(1-3)
    by (auto simp: PostgresReviewStore_Create_def sql_insert_def unique_violation_def Let_def
        list_ex_iff split: if_splits)
  then show ?thesis using assms(4) by (rule PostgresReviewStore_Create_duplicate)
qed

lemma PostgresReviewStore_Delete_no_match:
  assumes "\<not> list_ex (\<lambda>x. row_id x = reviewID \<and> row_user_id x = userID) tbl"
  shows "PostgresReviewStore_Delete reviewID userID tbl = (Some ErrReviewNotFound, tbl)"
proof -
  have "filter (\<lambda>x. row_id x = reviewID \<and> row_user_id x = userID) tbl = []"
    using assms by (auto simp: list_ex_iff filter_empty_conv)
  moreover have "filter (\<lambda>x. \<not> (row_id x = reviewID \<and> row_user_id x = userID)) tbl = tbl"
    using assms by (auto simp: list_ex_iff filter_id_conv)
  ultimately show ?thesis by (simp add: PostgresReviewStore_Delete_def sql_delete_def)
qed

lemma PostgresReviewStore_Delete_match:
  assumes "list_ex (\<lambda>x. row_id x = reviewID \<and> row_user_id x = userID) tbl"
  shows "PostgresReviewStore_Delete reviewID userID tbl =
           (None, filter (\<lambda>x. \<not> (row_id x = reviewID \<and> row_user_id x = userID)) tbl)"
proof -
  have "filter (\<lambda>x. row_id x = reviewID \<and> row_user_id x = userID) tbl \<noteq> []"
    using assms by (auto simp: list_ex_iff filter_empty_conv)
  then show ?thesis by (simp add: PostgresReviewStore_Delete_def sql_delete_def)
qed

lemma PostgresReviewStore_Update_no_match:
  assumes "\<not> list_ex (\<lambda>x. row_id x = ID review \<and> row_user_id x = UserID review) tbl"
  shows "PostgresReviewStore_Update now review tbl = (Some ErrReviewNotFound, tbl)"
proof -
  have "filter (\<lambda>x. row_id x = ID review \<and> row_user_id x = UserID review) tbl = []"
    using assms by (auto simp: list_ex_iff filter_empty_conv)
  moreover have "map (\<lambda>x. if row_id x = ID review \<and> row_user_id x = UserID review
                then x\<lparr>row_rating := Rating review, row_comment := Comment review, row_updated_at := now\<rparr> else x) tbl = tbl"
    using assms by (intro map_idI) (auto simp: list_ex_iff)
  ultimately show ?thesis by (simp add: PostgresReviewStore_Update_def sql_update_def)
qed

lemma PostgresReviewStore_Update_match:
  assumes "list_ex (\<lambda>x. row_id x = ID review \<and> row_user_id x = UserID review) tbl"
  shows "PostgresReviewStore_Update now review tbl =
           (None, map (\<lambda>x. if row_id x = ID review \<and> row_user_id x = UserID review
                then x\<lparr>row_rating := Rating review, row_comment := Comment review, row_updated_at := now\<rparr> else x) tbl)"
proof -
  have "filter (\<lambda>x. row_id x = ID review \<and> row_user_id x = UserID review) tbl \<noteq> []"
    using assms by (auto simp: list_ex_iff filter_empty_conv)
  then show ?thesis by (simp add: PostgresReviewStore_Update_def sql_update_def)
qed

subsection \<open>Creating a review: validation and the existence gate\<close>

text \<open>
  Claim C2. When the movie client's existence check answers "does not exist" for the
  movie of a create request, the request ends with 404 "Movie not found" and nothing is
  written: for a request that passes validation the response is exactly that, the only
  call made is the existence check, and the store is the one the request started with;
  and whatever the request, the store is unchanged and no call other than the existence
  check is made (in particular no \<open>Create\<close>).
\<close>

theorem CreateReview_absent_movie_not_found:
  assumes "CheckMovieExists (movieServiceClient h) (req_MovieID req) = Inr False"
  shows "(StructCtx (validator h) req = [] \<longrightarrow>
            ReviewHandler_CreateReview h env (Some req) st =
              ((respondError 404 ''Movie not found'', [Call_CheckMovieExists (req_MovieID req)]), st))
         \<and> snd (ReviewHandler_CreateReview h env (Some req) st) = st
         \<and> list_all (\<lambda>c. c = Call_CheckMovieExists (req_MovieID req))
              (snd (fst (ReviewHandler_CreateReview h env (Some req) st)))"
  using assms by (simp add: ReviewHandler_CreateReview_def split: list.splits)

theorem CreateReview_absent_movie_not_found_witness:
  "ReviewHandler_CreateReview
       (wired_ReviewHandler example_isUUID user_rpc_up exists_rpc_no info_rpc_down)
       example_reads (Some example_request) table_335 =
     ((respondError 404 ''Movie not found'',
       [Call_CheckMovieExists ''11111111-1111-1111-1111-111111111111'']), table_335)"
proof -
  let ?h = "wired_ReviewHandler example_isUUID user_rpc_up exists_rpc_no info_rpc_down"
  have gate: "CheckMovieExists (movieServiceClient ?h) (req_MovieID example_request) = Inr False"
    by (simp add: wired_ReviewHandler_def movieServiceGRPCClient_CheckMovieExists_def
        exists_rpc_no_def example_request_def)
  have valid: "StructCtx (validator ?h) example_request = []"
    by (simp add: wired_ReviewHandler_def StructCtx_def validate_MovieID_def validate_Rating_def
        validate_Comment_def example_request_def example_isUUID_def RuneCountInString_def)
  show ?thesis
    using CreateReview_absent_movie_not_found [OF gate, of example_reads table_335] valid
    by (simp add: example_request_def)
qed

text \<open>
  Claim C7. A create request whose rating is below 1 or above 10, or whose comment has
  more than 2000 characters, is answered 400 with the validation errors, without any
  call to a client or to the store, and the store is unchanged. The rating rule accepts
  exactly the ratings from 1 to 10; it refuses 0 and 11. A request with a rating from 1
  to 10, a movie id that passes the \<open>required\<close> and \<open>uuid\<close> tags and a comment of at
  most 2000 characters passes validation.
\<close>

theorem CreateReview_validation_before_any_call:
  "(req_Rating req < 1 \<or> 10 < req_Rating req \<or> 2000 < RuneCountInString (req_Comment req) \<longrightarrow>
      StructCtx (validator h) req \<noteq> [] \<and>
      ReviewHandler_CreateReview h env (Some req) st =
        ((respondJSON 400 (ValidationFailedBody (StructCtx (validator h) req)), []), st))
   \<and> ((1 \<le> r \<and> r \<le> 10) = (validate_Rating r = []))
   \<and> validate_Rating 0 \<noteq> [] \<and> validate_Rating 11 \<noteq> []
   \<and> (1 \<le> req_Rating req \<and> req_Rating req \<le> 10 \<and> req_MovieID req \<noteq> '''' \<and>
        validator h (req_MovieID req) \<and> RuneCountInString (req_Comment req) \<le> 2000 \<longrightarrow>
        StructCtx (validator h) req = [])"
proof -
  have rating: "(1 \<le> r \<and> r \<le> 10) = (validate_Rating r = [])" for r
    by (auto simp: validate_Rating_def)
  have bad: "StructCtx (validator h) req \<noteq> []"
    if "req_Rating req < 1 \<or> 10 < req_Rating req \<or> 2000 < RuneCountInString (req_Comment req)"
    using that by (auto simp: StructCtx_def validate_Rating_def validate_Comment_def)
  have resp: "ReviewHandler_CreateReview h env (Some req) st =
        ((respondJSON 400 (ValidationFailedBody (StructCtx (validator h) req)), []), st)"
    if "StructCtx (validator h) req \<noteq> []"
    using that by (simp add: ReviewHandler_CreateReview_def split: list.splits)
  have good: "StructCtx (validator h) req = []"
    if "1 \<le> req_Rating req \<and> req_Rating req \<le> 10 \<and> req_MovieID req \<noteq> '''' \<and>
        validator h (req_MovieID req) \<and> RuneCountInString (req_Comment req) \<le> 2000"
    using that by (simp add: StructCtx_def validate_MovieID_def validate_Rating_def validate_Comment_def)
  show ?thesis using rating bad resp good by (simp add: validate_Rating_def)
qed

theorem CreateReview_validation_before_any_call_witness:
  "ReviewHandler_CreateReview
       (wired_ReviewHandler example_isUUID user_rpc_up exists_rpc_no info_rpc_down)
       example_reads (Some (example_request\<lparr>req_Rating := 11\<rparr>)) table_335 =
     ((respondJSON 400 (ValidationFailedBody [\<lparr>Field = ''Rating'', Tag = ''lte''\<rparr>]), []), table_335)
   \<and> ReviewHandler_CreateReview
       (wired_ReviewHandler example_isUUID user_rpc_up exists_rpc_no info_rpc_down)
       example_reads (Some (example_request\<lparr>req_Rating := 0\<rparr>)) table_335 =
     ((respondJSON 400 (ValidationFailedBody [\<lparr>Field = ''Rating'', Tag = ''required''\<rparr>]), []), table_335)
   \<and> StructCtx example_isUUID example_request = []"
proof -
  let ?h = "wired_ReviewHandler example_isUUID user_rpc_up exists_rpc_no info_rpc_down"
  have v: "validator ?h = example_isUUID"
    by (simp add: wired_ReviewHandler_def)
  have e11: "StructCtx example_isUUID (example_request\<lparr>req_Rating := 11\<rparr>)
               = [\<lparr>Field = ''Rating'', Tag = ''lte''\<rparr>]"
    by (simp add: StructCtx_def validate_MovieID_def validate_Rating_def validate_Comment_def
        example_request_def example_isUUID_def RuneCountInString_def)
  have e0: "StructCtx example_isUUID (example_request\<lparr>req_Rating := 0\<rparr>)
               = [\<lparr>Field = ''Rating'', Tag = ''required''\<rparr>]"
    by (simp add: StructCtx_def validate_MovieID_def validate_Rating_def validate_Comment_def
        example_request_def example_isUUID_def RuneCountInString_def)
  have ok: "1 \<le> req_Rating example_request \<and> req_Rating example_request \<le> 10 \<and>
        req_MovieID example_request \<noteq> '''' \<and> validator ?h (req_MovieID example_request) \<and>
        RuneCountInString (req_Comment example_request) \<le> 2000"
    by (simp add: v example_request_def example_isUUID_def RuneCountInString_def)
  show ?thesis
    using CreateReview_validation_before_any_call
            [of "example_request\<lparr>req_Rating := 11\<rparr>" ?h example_reads table_335 1]
          CreateReview_validation_before_any_call
            [of "example_request\<lparr>req_Rating := 0\<rparr>" ?h example_reads table_335 1]
          CreateReview_validation_before_any_call [of example_request ?h example_reads table_335 1]
          ok
    by (simp add: v e11 e0)
qed


subsection \<open>Failure of the existence check\<close>

text \<open>
  Claim C8, as the specification states it: when the existence call itself fails, the
  request is answered with a dependency-unavailable (502-class) status. The handlers
  answer 500: here the movie service is unreachable and the create request gets 500
  "Could not verify movie existence", which is none of 502, 503, 504.
\<close>

theorem CreateReview_existence_failure_is_500:
  "ReviewHandler_CreateReview
       (wired_ReviewHandler example_isUUID user_rpc_up exists_rpc_down info_rpc_down)
       example_reads (Some example_request) table_335 =
     ((respondError 500 ''Could not verify movie existence'',
       [Call_CheckMovieExists ''11111111-1111-1111-1111-111111111111'']), table_335)
   \<and> \<not> dependency_unavailable_status
         (status (fst (fst (ReviewHandler_CreateReview
            (wired_ReviewHandler example_isUUID user_rpc_up exists_rpc_down info_rpc_down)
            example_reads (Some example_request) table_335))))"
  by (simp add: ReviewHandler_CreateReview_def wired_ReviewHandler_def StructCtx_def
      validate_MovieID_def validate_Rating_def validate_Comment_def example_request_def
      example_isUUID_def RuneCountInString_def movieServiceGRPCClient_CheckMovieExists_def
      exists_rpc_down_def respondError_def respondJSON_def dependency_unavailable_status_def)

text \<open>
  Claim C8, amended. When the existence check of the movie client fails for a movie, a
  create request for that movie that passes validation and an aggregate-rating request
  for that movie are both answered 500 "Could not verify movie existence", after that
  one call; and for every create request for that movie the store is unchanged and no
  call other than the existence check is made.
\<close>

theorem existence_failure_is_fatal:
  assumes "CheckMovieExists (movieServiceClient h) movieID = Inl err"
  shows "(StructCtx (validator h) req = [] \<and> req_MovieID req = movieID \<longrightarrow>
            ReviewHandler_CreateReview h env (Some req) st =
              ((respondError 500 ''Could not verify movie existence'',
                [Call_CheckMovieExists movieID]), st))
         \<and> (req_MovieID req = movieID \<longrightarrow>
              snd (ReviewHandler_CreateReview h env (Some req) st) = st \<and>
              list_all (\<lambda>c. c = Call_CheckMovieExists movieID)
                (snd (fst (ReviewHandler_CreateReview h env (Some req) st))))
         \<and> ReviewHandler_GetMovieAggregatedRating h movieID st =
              (respondError 500 ''Could not verify movie existence'', [Call_CheckMovieExists movieID])
         \<and> status (respondError 500 ''Could not verify movie existence'') = 500"
  using assms
  by (auto simp add: ReviewHandler_CreateReview_def ReviewHandler_GetMovieAggregatedRating_def
      respondError_def respondJSON_def split: list.splits)

theorem existence_failure_is_fatal_witness:
  "ReviewHandler_GetMovieAggregatedRating
       (wired_ReviewHandler example_isUUID user_rpc_up exists_rpc_down info_rpc_down) ''m1'' table_335 =
     (respondError 500 ''Could not verify movie existence'', [Call_CheckMovieExists ''m1''])
   \<and> snd (ReviewHandler_CreateReview
       (wired_ReviewHandler example_isUUID user_rpc_up exists_rpc_down info_rpc_down)
       example_reads (Some (example_request\<lparr>req_MovieID := ''m1''\<rparr>)) table_335) = table_335"
proof -
  let ?h = "wired_ReviewHandler example_isUUID user_rpc_up exists_rpc_down info_rpc_down"
  have gate: "CheckMovieExists (movieServiceClient ?h) ''m1'' = Inl codes_Unavailable"
    by (simp add: wired_ReviewHandler_def movieServiceGRPCClient_CheckMovieExists_def
        exists_rpc_down_def)
  show ?thesis
    using existence_failure_is_fatal
            [OF gate, of "example_request\<lparr>req_MovieID := ''m1''\<rparr>" example_reads table_335]
    by simp
qed

subsection \<open>Listing: enrichment\<close>

lemma enrich_for_movie_stored_fields:
  "enrich_for_movie h r =
     r\<lparr>Username := Username (enrich_for_movie h r), MovieTitle := MovieTitle (enrich_for_movie h r)\<rparr>"
  by (simp add: enrich_for_movie_def Let_def split: sum.splits option.splits)

lemma enrich_for_movie_user_lookup_fails:
  "GetUser (userServiceClient h) (UserID r) = Inl e \<Longrightarrow> Username (enrich_for_movie h r) = Username r"
  by (simp add: enrich_for_movie_def Let_def split: sum.splits option.splits)

lemma enrich_for_movie_movie_lookup_fails:
  "GetMovieInfo (movieServiceClient h) (MovieID r) = Inl e \<Longrightarrow>
     MovieTitle (enrich_for_movie h r) = MovieTitle r"
  by (simp add: enrich_for_movie_def Let_def split: sum.splits option.splits)

lemma enrich_for_user_stored_fields:
  "enrich_for_user h u r =
     r\<lparr>Username := Username (enrich_for_user h u r), MovieTitle := MovieTitle (enrich_for_user h u r)\<rparr>"
  by (simp add: enrich_for_user_def Let_def split: sum.splits option.splits)

lemma enrich_for_user_movie_lookup_fails:
  "GetMovieInfo (movieServiceClient h) (MovieID r) = Inl e \<Longrightarrow>
     MovieTitle (enrich_for_user h u r) = MovieTitle r"
  by (simp add: enrich_for_user_def Let_def split: sum.splits option.splits)

lemma PostgresReviewStore_GetReviewsByMovieID_display_fields_empty:
  "PostgresReviewStore_GetReviewsByMovieID movieID params tbl = Inr (revs, totalCount) \<Longrightarrow>
     list_all (\<lambda>r. Username r = '''' \<and> MovieTitle r = '''') revs"
  by (auto simp: PostgresReviewStore_GetReviewsByMovieID_def Let_def scan_review_def list_all_iff
      split: if_splits sum.splits)

lemma PostgresReviewStore_GetReviewsByUserID_display_fields_empty:
  "PostgresReviewStore_GetReviewsByUserID userID params tbl = Inr (revs, totalCount) \<Longrightarrow>
     list_all (\<lambda>r. Username r = '''' \<and> MovieTitle r = '''') revs"
  by (auto simp: PostgresReviewStore_GetReviewsByUserID_def Let_def scan_review_def list_all_iff
      split: if_splits sum.splits)

text \<open>
  Claim C3, as the specification states it: in a listing by movie or by user, a failed
  User or Movie lookup for a row never fails the listing. For the listing by user this
  is false: the handler looks the requested user up once, before it reads the store,
  and answers 404 when that lookup fails. Here the user service is unreachable, user
  \<open>u1\<close> has two reviews in the table, and the listing of \<open>u1\<close> is the 404.
\<close>

theorem GetReviewsByUserID_user_lookup_failure_is_fatal:
  "PostgresReviewStore_GetReviewsByUserID ''u1'' (list_params 1 10 '''') table_u1 =
     Inr (map scan_review [mk_row ''r2'' ''m2'' ''u1'' 5 200, mk_row ''r1'' ''m1'' ''u1'' 3 100], 2)
   \<and> GetUser (userServiceClient (wired_ReviewHandler example_isUUID user_rpc_down exists_rpc_no info_rpc_down))
        ''u1'' = Inl codes_Unavailable
   \<and> ReviewHandler_GetReviewsByUserID
        (wired_ReviewHandler example_isUUID user_rpc_down exists_rpc_no info_rpc_down)
        ''u1'' 1 10 '''' table_u1
      = respondError 404 ''User not found or error fetching user details.''"
  by (simp add: ReviewHandler_GetReviewsByUserID_def wired_ReviewHandler_def
      userServiceGRPCClient_GetUser_def user_rpc_down_def
      PostgresReviewStore_GetReviewsByUserID_def list_params_def
      table_u1_def mk_row_def sql_limit_offset_def sql_order_by_def int64_def)

text \<open>
  Claim C3, amended. In a listing by movie, when the store returns the page, the
  response is 200 with one row for each row of the page, in the same order and with the
  same stored fields; a row whose user lookup fails keeps the user name the store gave
  it, and a row whose movie lookup fails keeps the movie title the store gave it. In a
  listing by user, when the lookup of the requested user succeeds and the store returns
  the page, the same holds for the movie lookup of each row; when the lookup of the
  requested user fails, the response is 404 "User not found or error fetching user
  details." The rows the PostgreSQL store returns have both display fields empty.
\<close>

theorem listing_enrichment_failure_is_not_fatal:
  "(GetReviewsByMovieID (store h) movieID (list_params page_q limit_q sort_by) st = Inr (revs, totalCount) \<longrightarrow>
      (\<exists>rows.
         ReviewHandler_GetReviewsForMovie h movieID page_q limit_q sort_by st =
           respondJSON 200 (ReviewsBody rows totalCount (Page (list_params page_q limit_q sort_by))
                                                   (PageSize (list_params page_q limit_q sort_by))) \<and>
         length rows = length revs \<and>
         (\<forall>i<length revs.
            rows ! i = (revs ! i)\<lparr>Username := Username (rows ! i), MovieTitle := MovieTitle (rows ! i)\<rparr> \<and>
            ((\<exists>e. GetUser (userServiceClient h) (UserID (revs ! i)) = Inl e) \<longrightarrow>
               Username (rows ! i) = Username (revs ! i)) \<and>
            ((\<exists>e. GetMovieInfo (movieServiceClient h) (MovieID (revs ! i)) = Inl e) \<longrightarrow>
               MovieTitle (rows ! i) = MovieTitle (revs ! i)))))
   \<and> (GetUser (userServiceClient h) userID = Inr u \<and>
       GetReviewsByUserID (store h) userID (list_params page_q limit_q sort_by) st = Inr (revs, totalCount) \<longrightarrow>
      (\<exists>rows.
         ReviewHandler_GetReviewsByUserID h userID page_q limit_q sort_by st =
           respondJSON 200 (ReviewsBody rows totalCount (Page (list_params page_q limit_q sort_by))
                                                   (PageSize (list_params page_q limit_q sort_by))) \<and>
         length rows = length revs \<and>
         (\<forall>i<length revs.
            rows ! i = (revs ! i)\<lparr>Username := Username (rows ! i), MovieTitle := MovieTitle (rows ! i)\<rparr> \<and>
            ((\<exists>e. GetMovieInfo (movieServiceClient h) (MovieID (revs ! i)) = Inl e) \<longrightarrow>
               MovieTitle (rows ! i) = MovieTitle (revs ! i)))))
   \<and> (GetUser (userServiceClient h) userID = Inl e \<longrightarrow>
        ReviewHandler_GetReviewsByUserID h userID page_q limit_q sort_by st =
          respondError 404 ''User not found or error fetching user details.'')
   \<and> (PostgresReviewStore_GetReviewsByMovieID movieID params tbl = Inr (revs, totalCount) \<longrightarrow>
        list_all (\<lambda>r. Username r = '''' \<and> MovieTitle r = '''') revs)
   \<and> (PostgresReviewStore_GetReviewsByUserID userID params tbl = Inr (revs, totalCount) \<longrightarrow>
        list_all (\<lambda>r. Username r = '''' \<and> MovieTitle r = '''') revs)"
proof -
  have movie: "\<exists>rows.
         ReviewHandler_GetReviewsForMovie h movieID page_q limit_q sort_by st =
           respondJSON 200 (ReviewsBody rows totalCount (Page (list_params page_q limit_q sort_by))
                                                   (PageSize (list_params page_q limit_q sort_by))) \<and>
         length rows = length revs \<and>
         (\<forall>i<length revs.
            rows ! i = (revs ! i)\<lparr>Username := Username (rows ! i), MovieTitle := MovieTitle (rows ! i)\<rparr> \<and>
            ((\<exists>e. GetUser (userServiceClient h) (UserID (revs ! i)) = Inl e) \<longrightarrow>
               Username (rows ! i) = Username (revs ! i)) \<and>
            ((\<exists>e. GetMovieInfo (movieServiceClient h) (MovieID (revs ! i)) = Inl e) \<longrightarrow>
               MovieTitle (rows ! i) = MovieTitle (revs ! i)))"
    if ok: "GetReviewsByMovieID (store h) movieID (list_params page_q limit_q sort_by) st = Inr (revs, totalCount)"
  proof (intro exI conjI allI impI)
    show "ReviewHandler_GetReviewsForMovie h movieID page_q limit_q sort_by st =
           respondJSON 200 (ReviewsBody (map (enrich_for_movie h) revs) totalCount
              (Page (list_params page_q limit_q sort_by)) (PageSize (list_params page_q limit_q sort_by)))"
      using ok by (simp add: ReviewHandler_GetReviewsForMovie_def Let_def)
    show "length (map (enrich_for_movie h) revs) = length revs" by simp
  next
    fix i assume i: "i < length revs"
    show "map (enrich_for_movie h) revs ! i =
            (revs ! i)\<lparr>Username := Username (map (enrich_for_movie h) revs ! i),
                        MovieTitle := MovieTitle (map (enrich_for_movie h) revs ! i)\<rparr>"
      using i enrich_for_movie_stored_fields [of h "revs ! i"] by simp
    show "Username (map (enrich_for_movie h) revs ! i) = Username (revs ! i)"
      if "\<exists>e. GetUser (userServiceClient h) (UserID (revs ! i)) = Inl e"
      using that i enrich_for_movie_user_lookup_fails by auto
    show "MovieTitle (map (enrich_for_movie h) revs ! i) = MovieTitle (revs ! i)"
      if "\<exists>e. GetMovieInfo (movieServiceClient h) (MovieID (revs ! i)) = Inl e"
      using that i enrich_for_movie_movie_lookup_fails by auto
  qed
  have user: "\<exists>rows.
         ReviewHandler_GetReviewsByUserID h userID page_q limit_q sort_by st =
           respondJSON 200 (ReviewsBody rows totalCount (Page (list_params page_q limit_q sort_by))
                                                   (PageSize (list_params page_q limit_q sort_by))) \<and>
         length rows = length revs \<and>
         (\<forall>i<length revs.
            rows ! i = (revs ! i)\<lparr>Username := Username (rows ! i), MovieTitle := MovieTitle (rows ! i)\<rparr> \<and>
            ((\<exists>e. GetMovieInfo (movieServiceClient h) (MovieID (revs ! i)) = Inl e) \<longrightarrow>
               MovieTitle (rows ! i) = MovieTitle (revs ! i)))"
    if ok: "GetUser (userServiceClient h) userID = Inr u \<and>
       GetReviewsByUserID (store h) userID (list_params page_q limit_q sort_by) st = Inr (revs, totalCount)"
  proof (intro exI conjI allI impI)
    show "ReviewHandler_GetReviewsByUserID h userID page_q limit_q sort_by st =
           respondJSON 200 (ReviewsBody (map (enrich_for_user h u) revs) totalCount
              (Page (list_params page_q limit_q sort_by)) (PageSize (list_params page_q limit_q sort_by)))"
      using ok by (simp add: ReviewHandler_GetReviewsByUserID_def Let_def)
    show "length (map (enrich_for_user h u) revs) = length revs" by simp
  next
    fix i assume i: "i < length revs"
    show "map (enrich_for_user h u) revs ! i =
            (revs ! i)\<lparr>Username := Username (map (enrich_for_user h u) revs ! i),
                        MovieTitle := MovieTitle (map (enrich_for_user h u) revs ! i)\<rparr>"
      using i enrich_for_user_stored_fields [of h u "revs ! i"] by simp
    show "MovieTitle (map (enrich_for_user h u) revs ! i) = MovieTitle (revs ! i)"
      if "\<exists>e. GetMovieInfo (movieServiceClient h) (MovieID (revs ! i)) = Inl e"
      using that i enrich_for_user_movie_lookup_fails by auto
  qed
  have fatal: "ReviewHandler_GetReviewsByUserID h userID page_q limit_q sort_by st =
          respondError 404 ''User not found or error fetching user details.''"
    if "GetUser (userServiceClient h) userID = Inl e"
    using that by (simp add: ReviewHandler_GetReviewsByUserID_def)
  show ?thesis
    using movie user fatal PostgresReviewStore_GetReviewsByMovieID_display_fields_empty
      PostgresReviewStore_GetReviewsByUserID_display_fields_empty
    by blast
qed

theorem listing_enrichment_failure_is_not_fatal_witness:
  "ReviewHandler_GetReviewsForMovie
      (wired_ReviewHandler example_isUUID user_rpc_down exists_rpc_no info_rpc_down)
      ''m1'' 1 10 '''' table_335
    = respondJSON 200 (ReviewsBody
        (map scan_review [mk_row ''r3'' ''m1'' ''u3'' 5 300, mk_row ''r2'' ''m1'' ''u2'' 3 200,
                          mk_row ''r1'' ''m1'' ''u1'' 3 100]) 3 1 10)"
proof -
  let ?h = "wired_ReviewHandler example_isUUID user_rpc_down exists_rpc_no info_rpc_down"
  let ?revs = "map scan_review [mk_row ''r3'' ''m1'' ''u3'' 5 300, mk_row ''r2'' ''m1'' ''u2'' 3 200,
                          mk_row ''r1'' ''m1'' ''u1'' 3 100]"
  have st: "GetReviewsByMovieID (store ?h) ''m1'' (list_params 1 10 '''') table_335 = Inr (?revs, 3)"
    by (simp add: wired_ReviewHandler_def PostgresReviewStore_def
        PostgresReviewStore_GetReviewsByMovieID_def list_params_def
        table_335_def mk_row_def sql_limit_offset_def sql_order_by_def int64_def)
  have user: "GetUser (userServiceClient ?h) uid = Inl (if uid = '''' then codes_InvalidArgument else codes_Unavailable)" for uid
    by (simp add: wired_ReviewHandler_def userServiceGRPCClient_GetUser_def user_rpc_down_def)
  have info: "GetMovieInfo (movieServiceClient ?h) mid = Inl (if mid = '''' then codes_InvalidArgument else codes_Unavailable)" for mid
    by (simp add: wired_ReviewHandler_def movieServiceGRPCClient_GetMovieInfo_def info_rpc_down_def)
  from listing_enrichment_failure_is_not_fatal [of ?h "''m1''" 1 10 "''''" table_335 ?revs 3] st
  obtain rows where
    resp: "ReviewHandler_GetReviewsForMovie ?h ''m1'' 1 10 '''' table_335 =
           respondJSON 200 (ReviewsBody rows 3 (Page (list_params 1 10 '''')) (PageSize (list_params 1 10 '''')))"
    and len: "length rows = length ?revs"
    and each: "\<forall>i<length ?revs.
            rows ! i = (?revs ! i)\<lparr>Username := Username (rows ! i), MovieTitle := MovieTitle (rows ! i)\<rparr> \<and>
            ((\<exists>e. GetUser (userServiceClient ?h) (UserID (?revs ! i)) = Inl e) \<longrightarrow>
               Username (rows ! i) = Username (?revs ! i)) \<and>
            ((\<exists>e. GetMovieInfo (movieServiceClient ?h) (MovieID (?revs ! i)) = Inl e) \<longrightarrow>
               MovieTitle (rows ! i) = MovieTitle (?revs ! i))"
    by blast
  have "rows ! i = ?revs ! i" if "i < length ?revs" for i
  proof -
    have a: "rows ! i = (?revs ! i)\<lparr>Username := Username (rows ! i), MovieTitle := MovieTitle (rows ! i)\<rparr>"
      and b: "Username (rows ! i) = Username (?revs ! i)"
      and c: "MovieTitle (rows ! i) = MovieTitle (?revs ! i)"
      using each that user info by blast+
    show ?thesis using a unfolding b c by simp
  qed
  then have "rows = ?revs" using len by (intro nth_equalityI) auto
  then show ?thesis using resp by (simp add: list_params_def)
qed


subsection \<open>Aggregated rating\<close>

text \<open>The facts by which the \<open>float64\<close> and \<open>numeric\<close> operations are computed at given
  numbers.\<close>

lemmas float64_eval =
  nearest_float64_def ulp_exponent_def round_to_ulp_def floor_log2_quotient_def
  div_round_half_even_def float64_quo_def float64_of_int_def digit_count.simps Let_def

lemmas numeric_eval =
  scan_float64_def sql_coalesce_avg_def numeric_div_def select_div_scale_def
  numeric_weight_def numeric_firstdigit_def

text \<open>
  Claim C6. The specification: for every movie, the aggregate returns as count the
  number of the stored ratings of the movie and as average their sum divided by the
  count. The in-memory store computes the aggregate from the slice of the movie in
  \<open>reviewsByMovie\<close>, which \<open>Update\<close> leaves as it was: the store holds review \<open>r1\<close> of
  movie \<open>m1\<close> with rating 7; \<open>Update\<close> of \<open>r1\<close> with rating 1 succeeds; then \<open>GetByID\<close>
  shows the rating 1, the ratings the store holds for \<open>m1\<close> are the single rating 1, and
  the aggregate of \<open>m1\<close> is still average 7 with count 1.
\<close>

theorem MockReviewStore_aggregate_ignores_update:
  "Rating review_a = 7 \<and>
   MockReviewStore_Update 300 (review_a\<lparr>Rating := 1\<rparr>) mock_with_review_a = (None, mock_after_update) \<and>
   MockReviewStore_GetByID ''r1'' mock_after_update = Inr (review_a\<lparr>Rating := 1, UpdatedAt := 300\<rparr>) \<and>
   map Rating (mock_stored_reviews mock_after_update ''m1'') = [1] \<and>
   MockReviewStore_GetAggregatedRatingByMovieID ''m1'' mock_after_update =
     \<lparr>agg_MovieID = ''m1'', AverageRating = Finite 7, RatingCount = 1\<rparr>"
proof -
  have q: "float64_quo (float64_of_int 7) (float64_of_int 1) = Finite 7"
    by (simp add: float64_eval)
  have upd: "MockReviewStore_Update 300 (review_a\<lparr>Rating := 1\<rparr>) mock_with_review_a = (None, mock_after_update)"
    by (simp add: MockReviewStore_Update_def mock_with_review_a_def mock_after_update_def
        review_a_def mk_review_def)
  have get: "MockReviewStore_GetByID ''r1'' mock_after_update = Inr (review_a\<lparr>Rating := 1, UpdatedAt := 300\<rparr>)"
    by (simp add: MockReviewStore_GetByID_def mock_after_update_def)
  have stored: "map Rating (mock_stored_reviews mock_after_update ''m1'') = [1]"
    by (simp add: mock_stored_reviews_def mock_after_update_def review_a_def mk_review_def)
  have agg: "MockReviewStore_GetAggregatedRatingByMovieID ''m1'' mock_after_update =
     \<lparr>agg_MovieID = ''m1'', AverageRating = Finite 7, RatingCount = 1\<rparr>"
    by (simp add: MockReviewStore_GetAggregatedRatingByMovieID_def mock_after_update_def
        review_a_def mk_review_def int32_def int64_def q)
  have r: "Rating review_a = 7" by (simp add: review_a_def mk_review_def)
  show ?thesis using r upd get stored agg by simp
qed

text \<open>The PostgreSQL store on the same calls: after the update the average is 1.\<close>

lemma PostgresReviewStore_aggregate_after_update:
  "PostgresReviewStore_Update 300 (review_a\<lparr>Rating := 1\<rparr>) [mk_row ''r1'' ''m1'' ''u1'' 7 100] =
     (None, [(mk_row ''r1'' ''m1'' ''u1'' 1 100)\<lparr>row_updated_at := 300\<rparr>]) \<and>
   PostgresReviewStore_GetAggregatedRatingByMovieID ''m1''
     [(mk_row ''r1'' ''m1'' ''u1'' 1 100)\<lparr>row_updated_at := 300\<rparr>] =
     Inr \<lparr>agg_MovieID = ''m1'', AverageRating = Finite 1, RatingCount = 1\<rparr>"
proof -
  have n: "sql_coalesce_avg [1] = \<lparr>unscaled = 100000000000000000000, dscale = 20\<rparr>"
    by (simp add: numeric_eval digit_count.simps Let_def)
  have f: "scan_float64 \<lparr>unscaled = 100000000000000000000, dscale = 20\<rparr> = Finite 1"
    by (simp add: scan_float64_def float64_eval)
  show ?thesis
    by (simp add: PostgresReviewStore_Update_def sql_update_def
        PostgresReviewStore_GetAggregatedRatingByMovieID_def mk_row_def review_a_def mk_review_def n f)
qed

text \<open>The \<open>int32\<close> sum of the in-memory store wraps around: the ratings 2147483647 and 1
  (the store takes any \<open>int32\<close> rating) give the average -1073741824.\<close>

lemma MockReviewStore_aggregate_sum_wraps:
  "MockReviewStore_GetAggregatedRatingByMovieID ''m1'' mock_large_ratings =
     \<lparr>agg_MovieID = ''m1'', AverageRating = Finite (- 1073741824), RatingCount = 2\<rparr>"
proof -
  have q: "float64_quo (float64_of_int (- 2147483648)) (float64_of_int 2) = Finite (- 1073741824)"
    by (simp add: float64_eval)
  show ?thesis
    by (simp add: MockReviewStore_GetAggregatedRatingByMovieID_def mock_large_ratings_def
        mk_review_def int32_def int64_def q)
qed

text \<open>Both stores give average 4 and count 3 for the ratings 2, 4, 6, and the \<open>float64\<close>
  3.3333333333333335 (that is 7505999378950827 / 2 ^ 51) for the ratings 3, 3, 4.\<close>

lemma aggregate_246:
  "PostgresReviewStore_GetAggregatedRatingByMovieID ''m1'' table_246 =
     Inr \<lparr>agg_MovieID = ''m1'', AverageRating = Finite 4, RatingCount = 3\<rparr>
   \<and> MockReviewStore_GetAggregatedRatingByMovieID ''m1'' mock_246 =
     \<lparr>agg_MovieID = ''m1'', AverageRating = Finite 4, RatingCount = 3\<rparr>"
proof -
  have n: "sql_coalesce_avg [2, 4, 6] = \<lparr>unscaled = 40000000000000000, dscale = 16\<rparr>"
    by (simp add: numeric_eval digit_count.simps Let_def)
  have f: "scan_float64 \<lparr>unscaled = 40000000000000000, dscale = 16\<rparr> = Finite 4"
    by (simp add: scan_float64_def float64_eval)
  have q: "float64_quo (float64_of_int 12) (float64_of_int 3) = Finite 4"
    by (simp add: float64_eval)
  show ?thesis
    by (simp add: PostgresReviewStore_GetAggregatedRatingByMovieID_def table_246_def mk_row_def
        MockReviewStore_GetAggregatedRatingByMovieID_def mock_246_def mk_review_def
        int32_def int64_def n f q)
qed

lemma aggregate_334:
  "PostgresReviewStore_GetAggregatedRatingByMovieID ''m1'' table_334 =
     Inr \<lparr>agg_MovieID = ''m1'', AverageRating = Finite (7505999378950827 / 2251799813685248),
          RatingCount = 3\<rparr>
   \<and> MockReviewStore_GetAggregatedRatingByMovieID ''m1'' mock_334 =
     \<lparr>agg_MovieID = ''m1'', AverageRating = Finite (7505999378950827 / 2251799813685248),
      RatingCount = 3\<rparr>"
proof -
  have n: "sql_coalesce_avg [3, 3, 4] = \<lparr>unscaled = 33333333333333333, dscale = 16\<rparr>"
    by (simp add: numeric_eval digit_count.simps Let_def)
  have f: "scan_float64 \<lparr>unscaled = 33333333333333333, dscale = 16\<rparr>
             = Finite (7505999378950827 / 2251799813685248)"
    by (simp add: scan_float64_def float64_eval)
  have q: "float64_quo (float64_of_int 10) (float64_of_int 3)
             = Finite (7505999378950827 / 2251799813685248)"
    by (simp add: float64_eval)
  show ?thesis
    by (simp add: PostgresReviewStore_GetAggregatedRatingByMovieID_def table_334_def mk_row_def
        MockReviewStore_GetAggregatedRatingByMovieID_def mock_334_def mk_review_def
        int32_def int64_def n f q)
qed

text \<open>Without reviews of the movie the average is 0 and the count is 0, in both stores;
  the count of the PostgreSQL store is the number of the rows of the movie.\<close>

lemma PostgresReviewStore_aggregate_no_reviews:
  "filter (\<lambda>x. row_movie_id x = movieID) tbl = [] \<Longrightarrow>
     PostgresReviewStore_GetAggregatedRatingByMovieID movieID tbl =
       Inr \<lparr>agg_MovieID = movieID, AverageRating = Finite 0, RatingCount = 0\<rparr>"
  by (simp add: PostgresReviewStore_GetAggregatedRatingByMovieID_def sql_coalesce_avg_def
      scan_float64_def nearest_float64_def)

lemma MockReviewStore_aggregate_no_reviews:
  "reviewsByMovie_at m movieID = [] \<Longrightarrow>
     MockReviewStore_GetAggregatedRatingByMovieID movieID m =
       \<lparr>agg_MovieID = movieID, AverageRating = Finite 0, RatingCount = 0\<rparr>"
  by (simp add: MockReviewStore_GetAggregatedRatingByMovieID_def reviewsByMovie_at_def
      split: option.splits)

lemma PostgresReviewStore_aggregate_count:
  "\<exists>avg. PostgresReviewStore_GetAggregatedRatingByMovieID movieID tbl =
     Inr \<lparr>agg_MovieID = movieID, AverageRating = avg,
          RatingCount = int (length (filter (\<lambda>x. row_movie_id x = movieID) tbl))\<rparr>"
  by (simp add: PostgresReviewStore_GetAggregatedRatingByMovieID_def Let_def)

text \<open>
  Over the slice of the movie in \<open>reviewsByMovie\<close>, when its ratings are within 1 to 10
  and their sum fits the \<open>int32\<close>, the in-memory aggregate is the number of the ratings
  and the \<open>float64\<close> nearest to their sum divided by that number.
\<close>

lemma int32_id: "- (2 ^ 31) \<le> x \<Longrightarrow> x < 2 ^ 31 \<Longrightarrow> int32 x = x"
  by (simp add: int32_def)

lemma foldl_int32_sum:
  "list_all (\<lambda>r. 0 \<le> Rating r) rs \<Longrightarrow> sum_list (map Rating rs) < 2 ^ 31 \<Longrightarrow>
     foldl (\<lambda>s r. int32 (s + Rating r)) 0 rs = sum_list (map Rating rs)"
proof (induction rs rule: rev_induct)
  case Nil
  then show ?case by simp
next
  case (snoc x xs)
  have nonneg: "0 \<le> sum_list (map Rating xs)"
    using snoc.prems(1) by (intro sum_list_nonneg) (auto simp: list_all_iff)
  have x: "0 \<le> Rating x" using snoc.prems(1) by simp
  have "sum_list (map Rating xs) < 2 ^ 31" using snoc.prems(2) x by simp
  then have ih: "foldl (\<lambda>s r. int32 (s + Rating r)) 0 xs = sum_list (map Rating xs)"
    using snoc.IH snoc.prems(1) by simp
  have "int32 (sum_list (map Rating xs) + Rating x) = sum_list (map Rating xs) + Rating x"
    using nonneg x snoc.prems(2) by (intro int32_id) auto
  then show ?case using ih by simp
qed

lemma foldl_int64_count:
  "int (length rs) < 2 ^ 63 \<Longrightarrow> foldl (\<lambda>c r. int64 (c + 1)) 0 rs = int (length rs)"
proof (induction rs rule: rev_induct)
  case Nil
  then show ?case by simp
next
  case (snoc x xs)
  then have ih: "foldl (\<lambda>c r. int64 (c + 1)) 0 xs = int (length xs)" by simp
  have "int64 (int (length xs) + 1) = int (length xs) + 1"
    using snoc.prems by (intro int64_id) auto
  then show ?case using ih by simp
qed

lemma length_le_sum_ratings:
  "list_all (\<lambda>r. 1 \<le> Rating r) rs \<Longrightarrow> int (length rs) \<le> sum_list (map Rating rs)"
  by (induction rs) auto

lemma digit_count_2_le: "n < 2 ^ k \<Longrightarrow> digit_count 2 n \<le> k"
proof (induction k arbitrary: n)
  case 0
  then show ?case by (simp add: digit_count.simps)
next
  case (Suc k)
  show ?case
  proof (cases "n = 0")
    case True
    then show ?thesis by (simp add: digit_count.simps)
  next
    case False
    have "n div 2 < 2 ^ k" using Suc.prems by simp
    then have "digit_count 2 (n div 2) \<le> k" by (rule Suc.IH)
    then show ?thesis using False by (subst digit_count.simps) simp
  qed
qed

lemma float64_of_int_exact:
  assumes "\<bar>x\<bar> < 2 ^ 53"
  shows "float64_of_int x = x"
proof -
  have "nat \<bar>x\<bar> < 2 ^ 53" using assms by (simp add: nat_less_iff)
  then have "digit_count 2 (nat \<bar>x\<bar>) \<le> 53" by (rule digit_count_2_le)
  then have "digit_count 2 (nat \<bar>x\<bar>) - 53 = 0" by simp
  then show ?thesis
    by (simp add: float64_of_int_def div_round_half_even_def Let_def mult_sgn_abs)
qed

lemma MockReviewStore_aggregate_of_slice:
  assumes "list_all (\<lambda>r. 1 \<le> Rating r \<and> Rating r \<le> 10) (reviewsByMovie_at m movieID)"
      and "sum_list (map Rating (reviewsByMovie_at m movieID)) < 2 ^ 31"
  shows "MockReviewStore_GetAggregatedRatingByMovieID movieID m =
           \<lparr>agg_MovieID = movieID,
            AverageRating =
              (if reviewsByMovie_at m movieID = [] then Finite 0
               else nearest_float64 (sum_list (map Rating (reviewsByMovie_at m movieID)))
                      (int (length (reviewsByMovie_at m movieID)))),
            RatingCount = int (length (reviewsByMovie_at m movieID))\<rparr>"
proof (cases "map_of (reviewsByMovie m) movieID")
  case None
  then show ?thesis
    by (simp add: MockReviewStore_GetAggregatedRatingByMovieID_def reviewsByMovie_at_def)
next
  case (Some rs)
  then have rs: "reviewsByMovie_at m movieID = rs"
    by (simp add: reviewsByMovie_at_def)
  show ?thesis
  proof (cases "rs = []")
    case True
    then show ?thesis using Some rs
      by (simp add: MockReviewStore_GetAggregatedRatingByMovieID_def)
  next
    case False
    have a1: "list_all (\<lambda>r. 0 \<le> Rating r) rs" and a2: "list_all (\<lambda>r. 1 \<le> Rating r) rs"
      using assms(1) rs by (auto simp: list_all_iff)
    have s: "foldl (\<lambda>s r. int32 (s + Rating r)) 0 rs = sum_list (map Rating rs)"
      using a1 assms(2) rs by (simp add: foldl_int32_sum)
    have len: "int (length rs) \<le> sum_list (map Rating rs)"
      using length_le_sum_ratings [OF a2] .
    have small: "sum_list (map Rating rs) < 2 ^ 31" using assms(2) rs by simp
    have "int (length rs) < 2 ^ 63" using len small by simp
    then have c: "foldl (\<lambda>c r. int64 (c + 1)) 0 rs = int (length rs)"
      by (rule foldl_int64_count)
    have pos: "0 < int (length rs)" using False by simp
    have sumpos: "0 \<le> sum_list (map Rating rs)" using len by simp
    have f1: "float64_of_int (sum_list (map Rating rs)) = sum_list (map Rating rs)"
      using sumpos small by (intro float64_of_int_exact) simp
    have f2: "float64_of_int (int (length rs)) = int (length rs)"
      using len small by (intro float64_of_int_exact) simp
    have q: "float64_quo (sum_list (map Rating rs)) (int (length rs))
               = nearest_float64 (sum_list (map Rating rs)) (int (length rs))"
      using pos by (simp add: float64_quo_def)
    show ?thesis using Some rs False s c pos f1 f2 q
      by (simp add: MockReviewStore_GetAggregatedRatingByMovieID_def Let_def)
  qed
qed

subsection \<open>The existence check and the moderation status\<close>

text \<open>The PostgreSQL movie store finds each of its rows under the row's id (ids are the
  primary key).\<close>

lemma PostgresMovieStore_GetByID_row:
  assumes "movie \<in> set movie_tbl" and "distinct (map movie_ID movie_tbl)"
  shows "PostgresMovieStore_GetByID movie_tbl (movie_ID movie) = Inr movie"
proof -
  have "filter (\<lambda>x. movie_ID x = movie_ID movie) movie_tbl = [movie]"
    using assms
  proof (induction movie_tbl)
    case Nil
    then show ?case by simp
  next
    case (Cons a tbl)
    show ?case
    proof (cases "a = movie")
      case True
      then have "movie_ID movie \<notin> movie_ID ` set tbl"
        using Cons.prems(2) by simp
      then have "\<forall>x\<in>set tbl. movie_ID x \<noteq> movie_ID movie"
        by (metis imageI)
      then have "filter (\<lambda>x. movie_ID x = movie_ID movie) tbl = []"
        by (simp add: filter_empty_conv)
      then show ?thesis using True by simp
    next
      case False
      then have "movie \<in> set tbl" using Cons.prems(1) by simp
      moreover have "movie_ID a \<noteq> movie_ID movie"
        using Cons.prems(2) calculation by auto
      ultimately show ?thesis using Cons by simp
    qed
  qed
  then show ?thesis by (simp add: PostgresMovieStore_GetByID_def)
qed

text \<open>
  Claim C10. Whenever the movie store finds a movie under a (non-empty) id, the gRPC
  method \<open>CheckMovieExists\<close> answers \<open>exists = true\<close>, whatever the movie's status. If the
  movie is not approved, the public endpoint \<open>GetMovieByID\<close> answers 404 "Movie not
  found" for the same id, while the review service, whose movie client is answered by
  that gRPC server, creates a review for it (201, one row more in the table, for a
  valid request, a fresh review id and no earlier review of the pair) and returns its
  aggregated rating (200).
\<close>

theorem CheckMovieExists_ignores_moderation_status:
  assumes found: "getByID movieID = Inr movie" and nonempty: "movieID \<noteq> ''''"
  shows "Server_CheckMovieExists getByID movieID = Inr True
    \<and> (Status movie \<noteq> StatusApproved \<longrightarrow>
         MovieHandler_GetMovieByID getByID movieID = respondError 404 ''Movie not found'')
    \<and> (StructCtx isUUID req = [] \<and> req_MovieID req = movieID \<and>
        \<not> list_ex (\<lambda>x. row_id x = uuid_NewString env) tbl \<and>
        \<not> list_ex (\<lambda>x. row_user_id x = ''3aeb2a43-616f-4d62-a5e4-958e0802a31e'' \<and>
                          row_movie_id x = movieID) tbl \<longrightarrow>
         ReviewHandler_CreateReview
           (wired_ReviewHandler isUUID user_rpc (Server_CheckMovieExists getByID) (Server_GetMovieInfo getByID))
           env (Some req) tbl
         = ((respondJSON 201 (ReviewBody
               \<lparr>ID = uuid_NewString env, MovieID = movieID,
                UserID = ''3aeb2a43-616f-4d62-a5e4-958e0802a31e'',
                Rating = req_Rating req, Comment = req_Comment req,
                CreatedAt = store_now env, UpdatedAt = store_now env,
                Username = '''', MovieTitle = ''''\<rparr>),
             [Call_CheckMovieExists movieID,
              Call_Create
               \<lparr>ID = uuid_NewString env, MovieID = movieID,
                UserID = ''3aeb2a43-616f-4d62-a5e4-958e0802a31e'',
                Rating = req_Rating req, Comment = req_Comment req,
                CreatedAt = handler_now1 env, UpdatedAt = handler_now2 env,
                Username = '''', MovieTitle = ''''\<rparr>]),
            tbl @ [\<lparr>row_id = uuid_NewString env, row_movie_id = movieID,
                    row_user_id = ''3aeb2a43-616f-4d62-a5e4-958e0802a31e'',
                    row_rating = req_Rating req, row_comment = req_Comment req,
                    row_created_at = store_now env, row_updated_at = store_now env\<rparr>]))
    \<and> (\<exists>agg. PostgresReviewStore_GetAggregatedRatingByMovieID movieID tbl = Inr agg \<and>
         ReviewHandler_GetMovieAggregatedRating
           (wired_ReviewHandler isUUID user_rpc (Server_CheckMovieExists getByID) (Server_GetMovieInfo getByID))
           movieID tbl
         = (respondJSON 200 (RatingBody agg),
            [Call_CheckMovieExists movieID, Call_GetAggregatedRatingByMovieID movieID]))"
proof -
  let ?h = "wired_ReviewHandler isUUID user_rpc (Server_CheckMovieExists getByID) (Server_GetMovieInfo getByID)"
  have srv: "Server_CheckMovieExists getByID movieID = Inr True"
    using found nonempty by (simp add: Server_CheckMovieExists_def)
  have gate: "CheckMovieExists (movieServiceClient ?h) movieID = Inr True"
    using srv nonempty by (simp add: wired_ReviewHandler_def movieServiceGRPCClient_CheckMovieExists_def)
  have pub: "MovieHandler_GetMovieByID getByID movieID = respondError 404 ''Movie not found''"
    if "Status movie \<noteq> StatusApproved"
    using that found by (simp add: MovieHandler_GetMovieByID_def)
  have st: "store ?h = PostgresReviewStore" and v: "validator ?h = isUUID"
    by (simp_all add: wired_ReviewHandler_def)
  have create: "ReviewHandler_CreateReview ?h env (Some req) tbl
         = ((respondJSON 201 (ReviewBody
               \<lparr>ID = uuid_NewString env, MovieID = movieID,
                UserID = ''3aeb2a43-616f-4d62-a5e4-958e0802a31e'',
                Rating = req_Rating req, Comment = req_Comment req,
                CreatedAt = store_now env, UpdatedAt = store_now env,
                Username = '''', MovieTitle = ''''\<rparr>),
             [Call_CheckMovieExists movieID,
              Call_Create
               \<lparr>ID = uuid_NewString env, MovieID = movieID,
                UserID = ''3aeb2a43-616f-4d62-a5e4-958e0802a31e'',
                Rating = req_Rating req, Comment = req_Comment req,
                CreatedAt = handler_now1 env, UpdatedAt = handler_now2 env,
                Username = '''', MovieTitle = ''''\<rparr>]),
            tbl @ [\<lparr>row_id = uuid_NewString env, row_movie_id = movieID,
                    row_user_id = ''3aeb2a43-616f-4d62-a5e4-958e0802a31e'',
                    row_rating = req_Rating req, row_comment = req_Comment req,
                    row_created_at = store_now env, row_updated_at = store_now env\<rparr>])"
    if h: "StructCtx isUUID req = [] \<and> req_MovieID req = movieID \<and>
        \<not> list_ex (\<lambda>x. row_id x = uuid_NewString env) tbl \<and>
        \<not> list_ex (\<lambda>x. row_user_id x = ''3aeb2a43-616f-4d62-a5e4-958e0802a31e'' \<and>
                          row_movie_id x = movieID) tbl"
    using h gate
    by (simp add: ReviewHandler_CreateReview_def st v PostgresReviewStore_def
        PostgresReviewStore_Create_def sql_insert_def Let_def)
  have "\<exists>agg. PostgresReviewStore_GetAggregatedRatingByMovieID movieID tbl = Inr agg"
    by (simp add: PostgresReviewStore_GetAggregatedRatingByMovieID_def Let_def)
  then obtain a where a: "PostgresReviewStore_GetAggregatedRatingByMovieID movieID tbl = Inr a"
    by blast
  have "ReviewHandler_GetMovieAggregatedRating ?h movieID tbl
         = (respondJSON 200 (RatingBody a),
            [Call_CheckMovieExists movieID, Call_GetAggregatedRatingByMovieID movieID])"
    using gate a
    by (simp add: ReviewHandler_GetMovieAggregatedRating_def st PostgresReviewStore_def)
  with a have agg: "\<exists>agg. PostgresReviewStore_GetAggregatedRatingByMovieID movieID tbl = Inr agg \<and>
         ReviewHandler_GetMovieAggregatedRating ?h movieID tbl
         = (respondJSON 200 (RatingBody agg),
            [Call_CheckMovieExists movieID, Call_GetAggregatedRatingByMovieID movieID])"
    by blast
  show ?thesis using srv pub create agg by blast
qed

theorem CheckMovieExists_ignores_moderation_status_witness:
  "Server_CheckMovieExists (PostgresMovieStore_GetByID [pending_movie])
      ''11111111-1111-1111-1111-111111111111'' = Inr True
   \<and> MovieHandler_GetMovieByID (PostgresMovieStore_GetByID [pending_movie])
      ''11111111-1111-1111-1111-111111111111'' = respondError 404 ''Movie not found''
   \<and> fst (fst (ReviewHandler_CreateReview
        (ReviewHandler_over_movie_table example_isUUID user_rpc_up [pending_movie])
        example_reads (Some example_request) table_335))
      = respondJSON 201 (ReviewBody
               \<lparr>ID = ''r9'', MovieID = ''11111111-1111-1111-1111-111111111111'',
                UserID = ''3aeb2a43-616f-4d62-a5e4-958e0802a31e'',
                Rating = 7, Comment = ''ok'', CreatedAt = 12, UpdatedAt = 12,
                Username = '''', MovieTitle = ''''\<rparr>)"
proof -
  let ?mid = "''11111111-1111-1111-1111-111111111111''"
  have found: "PostgresMovieStore_GetByID [pending_movie] ?mid = Inr pending_movie"
    by (simp add: PostgresMovieStore_GetByID_def pending_movie_def)
  have ne: "?mid \<noteq> ''''" by simp
  have pend: "Status pending_movie \<noteq> StatusApproved"
    by (simp add: pending_movie_def StatusPendingApproval_def StatusApproved_def)
  have valid: "StructCtx example_isUUID example_request = []"
    by (simp add: StructCtx_def validate_MovieID_def validate_Rating_def
        validate_Comment_def example_request_def example_isUUID_def RuneCountInString_def)
  have mid: "req_MovieID example_request = ?mid"
    by (simp add: example_request_def)
  have fresh: "\<not> list_ex (\<lambda>x. row_id x = uuid_NewString example_reads) table_335"
    by (simp add: example_reads_def table_335_def mk_row_def)
  have nopair: "\<not> list_ex (\<lambda>x. row_user_id x = ''3aeb2a43-616f-4d62-a5e4-958e0802a31e'' \<and>
                          row_movie_id x = ?mid) table_335"
    by (simp add: table_335_def mk_row_def)
  show ?thesis
    using CheckMovieExists_ignores_moderation_status [where getByID = "PostgresMovieStore_GetByID [pending_movie]"
                     and movieID = ?mid and movie = pending_movie and isUUID = example_isUUID
                     and req = example_request and env = example_reads and tbl = table_335
                     and user_rpc = user_rpc_up, OF found ne]
      pend valid mid fresh nopair
    by (simp add: ReviewHandler_over_movie_table_def example_reads_def example_request_def)
qed


subsection \<open>The listings that paginate and sort\<close>

text \<open>
  The handlers pass a page of at least 1 and a page size from 1 to 50. For such
  parameters, as long as the offset \<open>(Page - 1) * PageSize\<close> fits Go's \<open>int\<close>, the
  listings of the PostgreSQL store return the rows from that offset on, at most
  \<open>PageSize\<close> of them, of the matching rows in the order of the sort keys, together
  with the number of all matching rows; a page beyond the end is empty. The in-memory
  listing by movie does the same over the slice of the movie in \<open>reviewsByMovie\<close>.
\<close>

lemma list_params_range:
  "1 \<le> Page (list_params page_q limit_q sort_by) \<and>
   1 \<le> PageSize (list_params page_q limit_q sort_by) \<and>
   PageSize (list_params page_q limit_q sort_by) \<le> 50 \<and>
   SortBy (list_params page_q limit_q sort_by) = sort_by"
  by (simp add: list_params_def Let_def)

lemma offset_no_wrap:
  assumes "1 \<le> p" and "1 \<le> n" and "(p - 1) * n < 2 ^ 63"
  shows "int64 (int64 (p - 1) * n) = (p - 1) * n"
proof -
  have nn: "0 \<le> (p - 1) * n" using assms(1,2) by simp
  have "p - 1 \<le> (p - 1) * n" using assms(1,2) by (simp add: mult_le_cancel_left1)
  then have "int64 (p - 1) = p - 1" using assms by (intro int64_id) auto
  moreover have "int64 ((p - 1) * n) = (p - 1) * n" using assms(3) nn by (intro int64_id) auto
  ultimately show ?thesis by simp
qed

lemma PostgresReviewStore_GetReviewsByMovieID_page:
  assumes "1 \<le> Page params" and "1 \<le> PageSize params"
      and "(Page params - 1) * PageSize params < 2 ^ 63"
  shows "PostgresReviewStore_GetReviewsByMovieID movieID params tbl =
           Inr (map scan_review
                  (take (nat (PageSize params))
                     (drop (nat ((Page params - 1) * PageSize params))
                        (sql_order_by (spec_sort_keys (SortBy params))
                           (filter (\<lambda>x. row_movie_id x = movieID) tbl)))),
                int (length (filter (\<lambda>x. row_movie_id x = movieID) tbl)))"
proof -
  have off: "int64 (int64 (Page params - 1) * PageSize params) = (Page params - 1) * PageSize params"
    using assms by (rule offset_no_wrap)
  have nonneg: "0 \<le> (Page params - 1) * PageSize params" using assms(1,2) by simp
  show ?thesis
  proof (cases "filter (\<lambda>x. row_movie_id x = movieID) tbl = []")
    case True
    then show ?thesis
      by (simp add: PostgresReviewStore_GetReviewsByMovieID_def sql_order_by_def)
  next
    case False
    then show ?thesis
      using off nonneg assms(2)
      by (simp add: PostgresReviewStore_GetReviewsByMovieID_def Let_def sql_limit_offset_def
          spec_sort_keys_def)
  qed
qed

lemma PostgresReviewStore_GetReviewsByUserID_page:
  assumes "1 \<le> Page params" and "1 \<le> PageSize params"
      and "(Page params - 1) * PageSize params < 2 ^ 63"
  shows "PostgresReviewStore_GetReviewsByUserID userID params tbl =
           Inr (map scan_review
                  (take (nat (PageSize params))
                     (drop (nat ((Page params - 1) * PageSize params))
                        (sql_order_by
                           (if SortBy params = ''rating_desc''
                            then [(col_rating, DESC), (col_created_at, DESC)]
                            else [(col_created_at, DESC)])
                           (filter (\<lambda>x. row_user_id x = userID) tbl)))),
                int (length (filter (\<lambda>x. row_user_id x = userID) tbl)))"
proof -
  have off: "int64 (int64 (Page params - 1) * PageSize params) = (Page params - 1) * PageSize params"
    using assms by (rule offset_no_wrap)
  have nonneg: "0 \<le> (Page params - 1) * PageSize params" using assms(1,2) by simp
  show ?thesis
  proof (cases "filter (\<lambda>x. row_user_id x = userID) tbl = []")
    case True
    then show ?thesis
      by (simp add: PostgresReviewStore_GetReviewsByUserID_def sql_order_by_def)
  next
    case False
    then show ?thesis
      using off nonneg assms(2)
      by (simp add: PostgresReviewStore_GetReviewsByUserID_def Let_def sql_limit_offset_def)
  qed
qed

lemma PostgresReviewStore_GetReviewsByMovieID_sorted:
  assumes "PostgresReviewStore_GetReviewsByMovieID movieID params tbl = Inr (map scan_review rows, n)"
  shows "sorted_wrt (row_le (spec_sort_keys (SortBy params))) rows"
proof -
  have inj: "inj scan_review"
    by (rule injI) (simp add: scan_review_def review_row.equality)
  have "rows = [] \<or> (\<exists>k j. rows = take k (drop j (sql_order_by (spec_sort_keys (SortBy params))
                     (filter (\<lambda>x. row_movie_id x = movieID) tbl))))"
    using assms inj
    by (auto simp: PostgresReviewStore_GetReviewsByMovieID_def Let_def sql_limit_offset_def
        spec_sort_keys_def split: if_splits)
  then show ?thesis
    using sorted_sql_order_by sorted_wrt_drop sorted_wrt_take by (metis sorted_wrt.simps(1))
qed

lemma MockReviewStore_GetReviewsByMovieID_page:
  assumes "1 \<le> Page params" and "1 \<le> PageSize params"
      and "(Page params - 1) * PageSize params + PageSize params < 2 ^ 63"
  shows "MockReviewStore_GetReviewsByMovieID movieID params m =
           Returns (take (nat (PageSize params))
                      (drop (nat ((Page params - 1) * PageSize params))
                         (reviewsByMovie_at m movieID)),
                    int (length (reviewsByMovie_at m movieID)))"
proof (cases "map_of (reviewsByMovie m) movieID")
  case None
  then show ?thesis
    by (simp add: MockReviewStore_GetReviewsByMovieID_def reviewsByMovie_at_def)
next
  case (Some rs)
  then have rs: "reviewsByMovie_at m movieID = rs"
    by (simp add: reviewsByMovie_at_def)
  define start where "start = (Page params - 1) * PageSize params"
  have s0: "0 \<le> start" using assms(1,2) by (simp add: start_def)
  have "start < 2 ^ 63" using assms(2,3) by (simp add: start_def)
  then have off: "int64 (int64 (Page params - 1) * PageSize params) = start"
    unfolding start_def using assms(1,2) by (intro offset_no_wrap) auto
  have "start + PageSize params < 2 ^ 63" using assms(3) by (simp add: start_def)
  then have e: "int64 (start + PageSize params) = start + PageSize params"
    using assms(2) s0 by (intro int64_id) auto
  show ?thesis
  proof (cases "rs = []")
    case True
    then show ?thesis using Some rs by (simp add: MockReviewStore_GetReviewsByMovieID_def)
  next
    case False
    show ?thesis
    proof (cases "int (length rs) \<le> start")
      case True
      then have "drop (nat start) rs = []" by simp
      then show ?thesis using Some rs False True off s0
        by (simp add: MockReviewStore_GetReviewsByMovieID_def Let_def start_def)
    next
      case inside: False
      show ?thesis
      proof (cases "int (length rs) < start + PageSize params")
        case True
        have "take (nat (PageSize params)) (drop (nat start) rs) = drop (nat start) rs"
          using True s0 by (intro take_all) auto
        moreover have "take (nat (int (length rs) - start)) (drop (nat start) rs) = drop (nat start) rs"
          using s0 by (intro take_all) auto
        ultimately show ?thesis using Some rs False inside True off e s0
          by (simp add: MockReviewStore_GetReviewsByMovieID_def Let_def go_slice_def start_def)
      next
        case nottrue: False
        then show ?thesis using Some rs False inside off e s0 assms(2)
          by (simp add: MockReviewStore_GetReviewsByMovieID_def Let_def go_slice_def start_def)
      qed
    qed
  qed
qed

lemma PostgresReviewStore_GetReviewsByMovieID_beyond_end:
  assumes "1 \<le> Page params" and "1 \<le> PageSize params"
      and "(Page params - 1) * PageSize params < 2 ^ 63"
      and "int (length (filter (\<lambda>x. row_movie_id x = movieID) tbl)) \<le> (Page params - 1) * PageSize params"
  shows "PostgresReviewStore_GetReviewsByMovieID movieID params tbl =
           Inr ([], int (length (filter (\<lambda>x. row_movie_id x = movieID) tbl)))"
  using PostgresReviewStore_GetReviewsByMovieID_page [OF assms(1-3), of movieID tbl] assms(4)
  by (simp add: length_sql_order_by)


lemma PostgresReviewStore_GetReviewsByUserID_sorted:
  assumes "PostgresReviewStore_GetReviewsByUserID userID params tbl = Inr (map scan_review rows, n)"
  shows "sorted_wrt (row_le (if SortBy params = ''rating_desc''
                             then [(col_rating, DESC), (col_created_at, DESC)]
                             else [(col_created_at, DESC)])) rows"
proof -
  have inj: "inj scan_review"
    by (rule injI) (simp add: scan_review_def review_row.equality)
  have "rows = [] \<or> (\<exists>k j. rows = take k (drop j (sql_order_by (if SortBy params = ''rating_desc''
                             then [(col_rating, DESC), (col_created_at, DESC)]
                             else [(col_created_at, DESC)])
                     (filter (\<lambda>x. row_user_id x = userID) tbl))))"
    using assms inj
    by (auto simp: PostgresReviewStore_GetReviewsByUserID_def Let_def sql_limit_offset_def
        split: if_splits)
  then show ?thesis
    using sorted_sql_order_by sorted_wrt_drop sorted_wrt_take by (metis sorted_wrt.simps(1))
qed

text \<open>The example of the specification: ratings 3, 3, 5 created at increasing times come
  back under \<open>rating_desc\<close> as 5, 3 (later), 3 (earlier).\<close>

lemma PostgresReviewStore_GetReviewsByMovieID_rating_desc_335:
  "PostgresReviewStore_GetReviewsByMovieID ''m1''
     \<lparr>Page = 1, PageSize = 10, SortBy = ''rating_desc''\<rparr> table_335
     = Inr (map scan_review [mk_row ''r3'' ''m1'' ''u3'' 5 300, mk_row ''r2'' ''m1'' ''u2'' 3 200,
                              mk_row ''r1'' ''m1'' ''u1'' 3 100], 3)"
  by (simp add: PostgresReviewStore_GetReviewsByMovieID_def table_335_def mk_row_def
      sql_limit_offset_def sql_order_by_def int64_def)

text \<open>A movie without reviews lists as the empty page with total 0, whatever the
  parameters.\<close>

lemma PostgresReviewStore_GetReviewsByMovieID_no_reviews:
  "filter (\<lambda>x. row_movie_id x = movieID) tbl = [] \<Longrightarrow>
     PostgresReviewStore_GetReviewsByMovieID movieID params tbl = Inr ([], 0)"
  by (simp add: PostgresReviewStore_GetReviewsByMovieID_def)

lemma MockReviewStore_GetReviewsByMovieID_no_reviews:
  "reviewsByMovie_at m movieID = [] \<Longrightarrow>
     MockReviewStore_GetReviewsByMovieID movieID params m = Returns ([], 0)"
  by (simp add: MockReviewStore_GetReviewsByMovieID_def reviewsByMovie_at_def
      split: option.splits)

text \<open>
  When the offset does not fit Go's \<open>int\<close>: for the page 9223372036854775807 and the
  page size 50 the product wraps around to -100, PostgreSQL refuses the negative
  \<open>OFFSET\<close>, the store reports the failure and the handler answers 500.
\<close>

lemma list_params_max_page:
  "list_params 9223372036854775807 50 '''' = \<lparr>Page = 9223372036854775807, PageSize = 50, SortBy = ''''\<rparr>"
  by (simp add: list_params_def)

lemma PostgresReviewStore_GetReviewsByMovieID_offset_wraps:
  "int64 (int64 (9223372036854775807 - 1) * 50) = - 100 \<and>
   PostgresReviewStore_GetReviewsByMovieID ''m1''
     \<lparr>Page = 9223372036854775807, PageSize = 50, SortBy = ''''\<rparr> table_335
     = Inl (ErrOther ''failed to list reviews by movieID'')"
  by (simp add: PostgresReviewStore_GetReviewsByMovieID_def table_335_def mk_row_def
      sql_limit_offset_def int64_def)

lemma ReviewHandler_GetReviewsForMovie_offset_wraps:
  "ReviewHandler_GetReviewsForMovie
      (wired_ReviewHandler example_isUUID user_rpc_up exists_rpc_no info_rpc_down)
      ''m1'' 9223372036854775807 50 '''' table_335
    = respondError 500 ''Failed to retrieve reviews''"
  using PostgresReviewStore_GetReviewsByMovieID_offset_wraps
  by (simp add: ReviewHandler_GetReviewsForMovie_def list_params_max_page
      wired_ReviewHandler_def PostgresReviewStore_def)

end
